theory Spec2Isabelle
  imports Main "HOL-Library.Word"
begin

section \<open>Data model of the exec handlers\<close>

text \<open>
  The handlers of \<^verbatim>\<open>exec_handlers.go\<close> are sequential code over three kinds of
  collaborators: the network context (scopes), the vSphere session (folders, hosts,
  tasks) and a few library functions. The collaborators are not part of the file, so
  they are fields of an environment record; the handlers are functions of that
  environment. Go pointers that the code tests against \<^verbatim>\<open>nil\<close> or dereferences are
  options, a Go \<^verbatim>\<open>error\<close> is its message (the code only tests it against \<^verbatim>\<open>nil\<close>
  and reads \<^verbatim>\<open>err.Error()\<close>), and a run-time panic is an outcome of its own.
\<close>

type_synonym ip = "8 word list"
type_synonym err = string

record IPNet =
  ipn_IP :: ip
  ipn_Mask :: "8 word list"

text \<open>
  Modelled from the spec: the declaration of \<^verbatim>\<open>network.Scope\<close> is not in the source
  file; the spec lists its accessors (name, subnet). A scope value here is the handle;
  the containers and addresses of the scope live in the network state.
\<close>

record Scope =
  scope_Name :: string
  scope_Subnet :: IPNet

text \<open>\<^verbatim>\<open>network.Endpoint\<close>, through the accessors the handler calls:
  \<^verbatim>\<open>IP()\<close>, \<^verbatim>\<open>Subnet()\<close>, \<^verbatim>\<open>Gateway()\<close>, \<^verbatim>\<open>Scope()\<close>.\<close>

record Endpoint =
  ep_IP :: ip
  ep_Subnet :: IPNet
  ep_Gateway :: ip
  ep_Scope :: Scope

record ContainerNetwork =
  cn_Name :: string
  cn_Gateway :: IPNet

record NetworkEndpoint =
  ne_IP :: IPNet
  ne_Network :: ContainerNetwork

text \<open>\<^verbatim>\<open>models.NetworkConfig\<close>: \<^verbatim>\<open>NetworkName string\<close>, \<^verbatim>\<open>Address *string\<close>.\<close>

record NetworkConfig =
  nc_NetworkName :: string
  nc_Address :: "string option"

record Cmd =
  cmd_Env :: "string list"
  cmd_Dir :: string
  cmd_Path :: string
  cmd_Args :: "string list"

record SessionConfig =
  sc_ID :: string
  sc_Tty :: bool
  sc_Attach :: bool
  sc_Cmd :: Cmd

record ExecutorConfig =
  ec_ID :: string
  ec_Name :: string
  ec_Sessions :: "string \<rightharpoonup> SessionConfig"
  ec_Networks :: "string \<rightharpoonup> NetworkEndpoint"

record VirtualMachineConfigSpecConfig =
  vc_NumCPUs :: nat
  vc_MemoryMB :: nat
  vc_ConnectorURI :: string
  vc_ID :: string
  vc_Name :: string
  vc_ParentImageID :: string
  vc_BootMediaPath :: string
  vc_VMPathName :: string
  vc_NetworkName :: string
  vc_ImageStoreName :: string
  vc_Metadata :: ExecutorConfig

text \<open>
  \<^verbatim>\<open>models.ContainerCreateConfig\<close> as the handler reads it: \<^verbatim>\<open>Path\<close>,
  \<^verbatim>\<open>WorkingDir\<close> and \<^verbatim>\<open>Image\<close> are dereferenced pointers, \<^verbatim>\<open>NetworkSettings\<close>
  is a pointer compared with \<^verbatim>\<open>nil\<close>. The create configuration itself and its
  image store are taken as present.
\<close>

record ContainerCreateConfig =
  cc_Path :: "string option"
  cc_Args :: "string list"
  cc_Env :: "string list"
  cc_WorkingDir :: "string option"
  cc_Image :: "string option"
  cc_ImageStoreName :: string
  cc_NetworkSettings :: "NetworkConfig option"

record ContainerCreateParams =
  pr_Name :: "string option"
  pr_CreateConfig :: ContainerCreateConfig

text \<open>The part of \<^verbatim>\<open>session.Session\<close> the handlers read. Managed object references
  (pool, folder, host, virtual machine) are opaque strings.\<close>

record Session =
  ss_DatastoreName :: string
  ss_DatastorePath :: "string \<Rightarrow> string"
  ss_NetworkRefValue :: string
  ss_Pool :: string

text \<open>
  Calls that leave the handler and change something or reach the control plane, in the
  order they are issued. Logging is not modelled.
\<close>

datatype call =
    CallAddContainer Scope string "ip option"
  | CallRemoveContainer Scope string
  | CallNewLinuxGuest VirtualMachineConfigSpecConfig
  | CallFolders
  | CallAttachedClusterHosts
  | CallCreateVM string string string string
  | CallFindVM string
  | CallPowerOn string

text \<open>
  The state a handler runs in: the network context's state (type \<open>'n\<close>, owned by the
  network package) and the calls issued so far.
\<close>

record 'n world =
  net :: 'n
  calls :: "call list"

text \<open>
  The collaborators. \<open>Scopes\<close> returns the pair of Go results (slice and error);
  the other fallible calls return either an error or a value, since the handler reads
  the value only when the error is \<^verbatim>\<open>nil\<close>. \<open>genID\<close> and \<open>randomName\<close> are the
  results of \<^verbatim>\<open>stringid.GenerateNonCryptoID\<close> and
  \<^verbatim>\<open>namesgenerator.GetRandomName\<close>; \<open>Intn\<close> is \<^verbatim>\<open>rand.Intn\<close> on a positive
  argument; \<open>CreateVM\<close> and \<open>PowerOn\<close> are the task launched and waited for by
  \<^verbatim>\<open>tasks.WaitForResult\<close>.
\<close>

record 'n env =
  DefaultScope :: "'n \<Rightarrow> Scope"
  Scopes :: "string \<Rightarrow> 'n \<Rightarrow> Scope list \<times> err option"
  ParseIP :: "string \<Rightarrow> ip option"
  AddContainer :: "Scope \<Rightarrow> string \<Rightarrow> ip option \<Rightarrow> 'n \<Rightarrow> (err + Endpoint) \<times> 'n"
  RemoveContainer :: "Scope \<Rightarrow> string \<Rightarrow> 'n \<Rightarrow> err option \<times> 'n"
  genID :: string
  randomName :: string
  VCHName :: string
  execSession :: Session
  NewLinuxGuest :: "VirtualMachineConfigSpecConfig \<Rightarrow> err + string"
  Folders :: "err + string"
  AttachedClusterHosts :: "err + string list"
  Intn :: "nat \<Rightarrow> nat"
  CreateVM :: "string \<Rightarrow> string \<Rightarrow> string \<Rightarrow> string \<Rightarrow> err option"
  FindVM :: "string \<Rightarrow> err + string"
  PowerOn :: "string \<Rightarrow> err option"

datatype panic = NilDereference | IndexOutOfRange | IntnInvalidArgument

datatype response =
    ContainerCreateOK string
  | ContainerCreateNotFound string
  | ContainerStartOK

datatype outcome = Returns response | Panics panic

definition issue :: "call \<Rightarrow> 'n world \<Rightarrow> 'n world" where
  "issue c w = w\<lparr>calls := calls w @ [c]\<rparr>"

text \<open>The operation a call goes to, without its arguments.\<close>

fun callName :: "call \<Rightarrow> string" where
  "callName (CallAddContainer s n i) = ''AddContainer''"
| "callName (CallRemoveContainer s n) = ''RemoveContainer''"
| "callName (CallNewLinuxGuest c) = ''NewLinuxGuest''"
| "callName CallFolders = ''Folders''"
| "callName CallAttachedClusterHosts = ''AttachedClusterHosts''"
| "callName (CallCreateVM f g p h) = ''CreateVM''"
| "callName (CallFindVM i) = ''FindVM''"
| "callName (CallPowerOn v) = ''PowerOn''"

section \<open>addContainerToScope\<close>

text \<open>Lines 107-115: the requested static address, if any, must parse.\<close>

definition requestedIP :: "'n env \<Rightarrow> NetworkConfig \<Rightarrow> err + ip option" where
  "requestedIP env ns =
     (case nc_Address ns of
        None \<Rightarrow> Inr None
      | Some a \<Rightarrow>
          (case ParseIP env a of
             None \<Rightarrow> Inl ''invalid ip address''
           | Some i \<Rightarrow> Inr (Some i)))"

text \<open>Lines 123-137: the endpoint metadata built from the allocated endpoint.\<close>

definition endpointMetadata :: "Endpoint \<Rightarrow> NetworkEndpoint" where
  "endpointMetadata e =
     \<lparr>ne_IP = \<lparr>ipn_IP = ep_IP e, ipn_Mask = ipn_Mask (ep_Subnet e)\<rparr>,
      ne_Network =
        \<lparr>cn_Name = scope_Name (ep_Scope e),
         cn_Gateway = \<lparr>ipn_IP = ep_Gateway e, ipn_Mask = ipn_Mask (ep_Subnet e)\<rparr>\<rparr>\<rparr>"

text \<open>Lines 107-139: what the function does once the scope \<open>s\<close> is resolved.\<close>

definition allocateIn ::
  "'n env \<Rightarrow> string \<Rightarrow> NetworkConfig \<Rightarrow> Scope \<Rightarrow> 'n world
     \<Rightarrow> (NetworkEndpoint option \<times> Scope option \<times> err option) \<times> 'n world" where
  "allocateIn env name ns s w =
     (case requestedIP env ns of
        Inl e \<Rightarrow> ((None, None, Some e), w)
      | Inr ip \<Rightarrow>
          (case AddContainer env s name ip (net w) of
             (Inl e, n') \<Rightarrow>
               ((None, None, Some e), issue (CallAddContainer s name ip) (w\<lparr>net := n'\<rparr>))
           | (Inr e, n') \<Rightarrow>
               ((Some (endpointMetadata e), Some s, None),
                issue (CallAddContainer s name ip) (w\<lparr>net := n'\<rparr>))))"

text \<open>Lines 84-105, then \<open>allocateIn\<close>.\<close>

definition addContainerToScope ::
  "'n env \<Rightarrow> string \<Rightarrow> NetworkConfig option \<Rightarrow> 'n world
     \<Rightarrow> (NetworkEndpoint option \<times> Scope option \<times> err option) \<times> 'n world" where
  "addContainerToScope env name nso w =
     (case nso of
        None \<Rightarrow> ((None, None, None), w)
      | Some ns \<Rightarrow>
          (if nc_NetworkName ns = ''default''
           then allocateIn env name ns (DefaultScope env (net w)) w
           else (case Scopes env (nc_NetworkName ns) (net w) of
                   (scopes, err) \<Rightarrow>
                     if err \<noteq> None \<or> length scopes \<noteq> 1
                     then ((None, None, err), w)
                     else allocateIn env name ns (scopes ! 0) w)))"

section \<open>Splitting the network reference\<close>

text \<open>
  \<^verbatim>\<open>strings.Split(s, "-")\<close>: the substrings of \<open>s\<close> between the hyphens, one more
  than there are hyphens.
\<close>

fun splitHyphen :: "string \<Rightarrow> string list" where
  "splitHyphen [] = [[]]"
| "splitHyphen (c # cs) =
     (if c = CHR ''-'' then [] # splitHyphen cs
      else (case splitHyphen cs of
              [] \<Rightarrow> [[c]]
            | p # ps \<Rightarrow> (c # p) # ps))"

text \<open>Line 225: index 1 of the split; out of range is a run-time panic.\<close>

definition networkName :: "string \<Rightarrow> panic + string" where
  "networkName v =
     (let parts = splitHyphen v
      in if 1 < length parts then Inr (parts ! 1) else Inl IndexOutOfRange)"

text \<open>\<^verbatim>\<open>strings.Join(parts, "-")\<close>, to state that the split loses nothing.\<close>

fun joinHyphen :: "string list \<Rightarrow> string" where
  "joinHyphen [] = []"
| "joinHyphen [p] = p"
| "joinHyphen (p # q # ps) = p @ CHR ''-'' # joinHyphen (q # ps)"

section \<open>ContainerCreateHandler\<close>

text \<open>Lines 166-171: the command descriptor; \<open>dir\<close> and \<open>path\<close> are the dereferenced
  working directory and path.\<close>

definition createCmd :: "ContainerCreateConfig \<Rightarrow> string \<Rightarrow> string \<Rightarrow> Cmd" where
  "createCmd cc dir path =
     \<lparr>cmd_Env = cc_Env cc, cmd_Dir = dir, cmd_Path = path,
      cmd_Args = [path] @ cc_Args cc\<rparr>"

text \<open>Lines 173-190.\<close>

definition createMetadata :: "string \<Rightarrow> string \<Rightarrow> Cmd \<Rightarrow> ExecutorConfig" where
  "createMetadata cid name cmd =
     \<lparr>ec_ID = cid, ec_Name = name,
      ec_Sessions =
        [cid \<mapsto> \<lparr>sc_ID = cid, sc_Tty = False, sc_Attach = True, sc_Cmd = cmd\<rparr>],
      ec_Networks = Map.empty\<rparr>"

text \<open>Lines 205-207.\<close>

definition recordEndpoint :: "NetworkEndpoint option \<Rightarrow> ExecutorConfig \<Rightarrow> ExecutorConfig" where
  "recordEndpoint neo m =
     (case neo of
        None \<Rightarrow> m
      | Some ne \<Rightarrow> m\<lparr>ec_Networks := (ec_Networks m)(cn_Name (ne_Network ne) \<mapsto> ne)\<rparr>)"

text \<open>Lines 209-230: the configuration handed to the guest builder. The image pointer
  is dereferenced first, then the network reference is split and indexed.\<close>

definition createSpecconfig ::
  "'n env \<Rightarrow> ContainerCreateConfig \<Rightarrow> string \<Rightarrow> string \<Rightarrow> ExecutorConfig
     \<Rightarrow> panic + VirtualMachineConfigSpecConfig" where
  "createSpecconfig env cc cid name m =
     (case cc_Image cc of
        None \<Rightarrow> Inl NilDereference
      | Some img \<Rightarrow>
          (case networkName (ss_NetworkRefValue (execSession env)) of
             Inl p \<Rightarrow> Inl p
           | Inr nn \<Rightarrow>
               Inr \<lparr>vc_NumCPUs = 2, vc_MemoryMB = 2048,
                    vc_ConnectorURI = ''tcp://127.0.0.1:2377'',
                    vc_ID = cid, vc_Name = name,
                    vc_ParentImageID = img,
                    vc_BootMediaPath =
                      ss_DatastorePath (execSession env) (VCHName env @ ''/bootstrap.iso''),
                    vc_VMPathName = ''['' @ ss_DatastoreName (execSession env) @ '']'',
                    vc_NetworkName = nn,
                    vc_ImageStoreName = cc_ImageStoreName cc,
                    vc_Metadata = m\<rparr>))"

text \<open>
  Lines 239-266, after the guest is built. The result is the outcome, the value of the
  variable \<^verbatim>\<open>err\<close> when the function is left (the deferred function reads it), and
  the state. \<^verbatim>\<open>rand.Intn\<close> panics on an argument that is not positive; an index
  outside the slice panics.
\<close>

definition placeAndCreate ::
  "'n env \<Rightarrow> string \<Rightarrow> string \<Rightarrow> 'n world \<Rightarrow> outcome \<times> err option \<times> 'n world" where
  "placeAndCreate env cid linux w =
     (case Folders env of
        Inl e \<Rightarrow> (Returns (ContainerCreateNotFound e), Some e, issue CallFolders w)
      | Inr parent \<Rightarrow>
          (let w1 = issue CallAttachedClusterHosts (issue CallFolders w)
           in case AttachedClusterHosts env of
                Inl e \<Rightarrow> (Returns (ContainerCreateNotFound e), Some e, w1)
              | Inr hosts \<Rightarrow>
                  if length hosts = 0 then (Panics IntnInvalidArgument, None, w1)
                  else
                    (let i = Intn env (length hosts)
                     in if \<not> i < length hosts then (Panics IndexOutOfRange, None, w1)
                        else
                          (let host = hosts ! i;
                               pool = ss_Pool (execSession env);
                               w2 = issue (CallCreateVM parent linux pool host) w1
                           in case CreateVM env parent linux pool host of
                                Some e \<Rightarrow> (Returns (ContainerCreateNotFound e), Some e, w2)
                              | None \<Rightarrow> (Returns (ContainerCreateOK cid), None, w2)))))"

text \<open>Lines 209-266. \<open>err\<close> is the error left in the variable by
  \<open>addContainerToScope\<close>; every later assignment overwrites it.\<close>

definition buildAndCreate ::
  "'n env \<Rightarrow> ContainerCreateConfig \<Rightarrow> string \<Rightarrow> string \<Rightarrow> ExecutorConfig \<Rightarrow> err option
     \<Rightarrow> 'n world \<Rightarrow> outcome \<times> err option \<times> 'n world" where
  "buildAndCreate env cc cid name m err w =
     (case createSpecconfig env cc cid name m of
        Inl p \<Rightarrow> (Panics p, err, w)
      | Inr specconfig \<Rightarrow>
          (let w1 = issue (CallNewLinuxGuest specconfig) w
           in case NewLinuxGuest env specconfig of
                Inl e \<Rightarrow>
                  (Returns (ContainerCreateNotFound
                     (''Error constructing container vm specification: '' @ e)),
                   Some e, w1)
              | Inr linux \<Rightarrow> placeAndCreate env cid linux w1))"

text \<open>Lines 196-203: the deferred function, run when the handler is left by a return
  or by a panic. The result of \<^verbatim>\<open>RemoveContainer\<close> is discarded.\<close>

definition deferredRelease ::
  "'n env \<Rightarrow> string \<Rightarrow> Scope option \<Rightarrow> err option \<Rightarrow> 'n world \<Rightarrow> 'n world" where
  "deferredRelease env name so err w =
     (if err \<noteq> None
      then (case so of
              None \<Rightarrow> w
            | Some s \<Rightarrow>
                (case RemoveContainer env s name (net w) of
                   (r, n') \<Rightarrow> issue (CallRemoveContainer s name) (w\<lparr>net := n'\<rparr>)))
      else w)"

text \<open>Lines 143-268. The two dereferences of lines 168-169 come before the deferred
  function is registered.\<close>

definition ContainerCreateHandler ::
  "'n env \<Rightarrow> ContainerCreateParams \<Rightarrow> 'n world \<Rightarrow> outcome \<times> 'n world" where
  "ContainerCreateHandler env params w =
     (let cc = pr_CreateConfig params;
          cid = genID env;
          name = (case pr_Name params of None \<Rightarrow> randomName env | Some n \<Rightarrow> n)
      in case cc_WorkingDir cc of
           None \<Rightarrow> (Panics NilDereference, w)
         | Some dir \<Rightarrow>
             (case cc_Path cc of
                None \<Rightarrow> (Panics NilDereference, w)
              | Some path \<Rightarrow>
                  (let m = createMetadata cid name (createCmd cc dir path)
                   in case addContainerToScope env name (cc_NetworkSettings cc) w of
                        ((ne, s, err), w1) \<Rightarrow>
                          (case buildAndCreate env cc cid name (recordEndpoint ne m) err w1 of
                             (out, err', w2) \<Rightarrow>
                               (out, deferredRelease env name s err' w2)))))"

section \<open>ContainerStartHandler\<close>

text \<open>Lines 271-294. The error responses are built with
  \<^verbatim>\<open>NewContainerCreateNotFound\<close>, as in the source.\<close>

definition ContainerStartHandler ::
  "'n env \<Rightarrow> string \<Rightarrow> 'n world \<Rightarrow> outcome \<times> 'n world" where
  "ContainerStartHandler env cid w =
     (case FindVM env cid of
        Inl e \<Rightarrow> (Returns (ContainerCreateNotFound e), issue (CallFindVM cid) w)
      | Inr foundvm \<Rightarrow>
          (let w1 = issue (CallPowerOn foundvm) (issue (CallFindVM cid) w)
           in case PowerOn env foundvm of
                Some e \<Rightarrow> (Returns (ContainerCreateNotFound e), w1)
              | None \<Rightarrow> (Returns ContainerStartOK, w1)))"

section \<open>A concrete deployment\<close>

text \<open>
  An environment on which the handlers can be run: the network state is the list of
  (scope name, container name) attachments, there is a default bridge scope and one
  scope named \<open>''custom''\<close>, addresses are accepted from a fixed table, and the control
  plane has two hosts and answers every request with success.
\<close>

definition bridgeScope :: Scope where
  "bridgeScope =
     \<lparr>scope_Name = ''bridge'',
      scope_Subnet = \<lparr>ipn_IP = [172, 16, 0, 0], ipn_Mask = [255, 255, 0, 0]\<rparr>\<rparr>"

definition customScope :: Scope where
  "customScope =
     \<lparr>scope_Name = ''custom'',
      scope_Subnet = \<lparr>ipn_IP = [10, 0, 0, 0], ipn_Mask = [255, 255, 255, 0]\<rparr>\<rparr>"

definition demoEndpoint :: "Scope \<Rightarrow> ip option \<Rightarrow> Endpoint" where
  "demoEndpoint s ipo =
     \<lparr>ep_IP = (case ipo of None \<Rightarrow> [10, 0, 0, 2] | Some i \<Rightarrow> i),
      ep_Subnet = scope_Subnet s,
      ep_Gateway = [10, 0, 0, 1],
      ep_Scope = s\<rparr>"

definition demoEnv :: "(string \<times> string) list env" where
  "demoEnv =
     \<lparr>DefaultScope = (\<lambda>n. bridgeScope),
      Scopes = (\<lambda>nm n. if nm = ''custom'' then ([customScope], None)
                        else ([], Some ''no such network'')),
      ParseIP = (\<lambda>a. if a = ''10.0.0.5'' then Some [10, 0, 0, 5] else None),
      AddContainer = (\<lambda>s nm ipo n. (Inr (demoEndpoint s ipo), (scope_Name s, nm) # n)),
      RemoveContainer = (\<lambda>s nm n. (None, removeAll (scope_Name s, nm) n)),
      genID = ''c0ffee'',
      randomName = ''jolly_turing'',
      VCHName = ''vch1'',
      execSession =
        \<lparr>ss_DatastoreName = ''ds1'',
         ss_DatastorePath = (\<lambda>p. ''[ds1] '' @ p),
         ss_NetworkRefValue = ''network-42'',
         ss_Pool = ''pool-1''\<rparr>,
      NewLinuxGuest = (\<lambda>c. Inr (vc_ID c)),
      Folders = Inr ''vmfolder'',
      AttachedClusterHosts = Inr [''host-1'', ''host-2''],
      Intn = (\<lambda>n. 0),
      CreateVM = (\<lambda>f g p h. None),
      FindVM = (\<lambda>i. if i = ''c0ffee'' then Inr ''vm-7'' else Inl ''not found''),
      PowerOn = (\<lambda>v. None)\<rparr>"

definition demoWorld :: "(string \<times> string) list world" where
  "demoWorld = \<lparr>net = [], calls = []\<rparr>"

definition demoConfig :: ContainerCreateConfig where
  "demoConfig =
     \<lparr>cc_Path = Some ''/bin/sh'', cc_Args = [''-c'', ''true''], cc_Env = [],
      cc_WorkingDir = Some ''/'', cc_Image = Some ''img1'',
      cc_ImageStoreName = ''store1'',
      cc_NetworkSettings = Some \<lparr>nc_NetworkName = ''custom'', nc_Address = None\<rparr>\<rparr>"

definition demoParams :: ContainerCreateParams where
  "demoParams = \<lparr>pr_Name = Some ''web'', pr_CreateConfig = demoConfig\<rparr>"

section \<open>Properties of the split\<close>

lemma splitHyphen_nonempty: "splitHyphen v \<noteq> []"
  by (induction v) (auto split: list.splits)

lemma length_splitHyphen: "length (splitHyphen v) = Suc (count_list v CHR ''-'')"
  by (induction v) (auto split: list.splits simp: splitHyphen_nonempty)

lemma splitHyphen_no_hyphen: "CHR ''-'' \<notin> set v \<Longrightarrow> splitHyphen v = [v]"
  by (induction v) auto

lemma splitHyphen_decomp:
  "splitHyphen v =
     takeWhile (\<lambda>c. c \<noteq> CHR ''-'') v #
       (case dropWhile (\<lambda>c. c \<noteq> CHR ''-'') v of [] \<Rightarrow> [] | d # r \<Rightarrow> splitHyphen r)"
  by (induction v) (auto split: list.splits)

lemma splitHyphen_parts: "p \<in> set (splitHyphen v) \<Longrightarrow> CHR ''-'' \<notin> set p"
  by (induction v arbitrary: p) (auto split: list.splits if_splits)

lemma joinHyphen_Cons: "joinHyphen ((c # p) # ps) = c # joinHyphen (p # ps)"
  by (cases ps) simp_all

lemma splitHyphen_join: "joinHyphen (splitHyphen v) = v"
proof (induction v)
  case Nil
  show ?case by simp
next
  case (Cons c cs)
  obtain p ps where sp: "splitHyphen cs = p # ps"
    using splitHyphen_nonempty [of cs] by (cases "splitHyphen cs") auto
  show ?case
  proof (cases "c = CHR ''-''")
    case True
    then show ?thesis using Cons.IH sp by simp
  next
    case False
    then have "splitHyphen (c # cs) = (c # p) # ps" using sp by simp
    then show ?thesis using Cons.IH sp by (simp only: joinHyphen_Cons)
  qed
qed

lemma second_component:
  assumes "CHR ''-'' \<in> set v"
  shows "1 < length (splitHyphen v)"
    and "splitHyphen v ! 1 = takeWhile (\<lambda>c. c \<noteq> CHR ''-'') (tl (dropWhile (\<lambda>c. c \<noteq> CHR ''-'') v))"
proof -
  from assms obtain d r where dr: "dropWhile (\<lambda>c. c \<noteq> CHR ''-'') v = d # r"
    by (cases "dropWhile (\<lambda>c. c \<noteq> CHR ''-'') v") (auto simp: dropWhile_eq_Nil_conv)
  have s: "splitHyphen v = takeWhile (\<lambda>c. c \<noteq> CHR ''-'') v # splitHyphen r"
    using splitHyphen_decomp [of v] dr by simp
  show "1 < length (splitHyphen v)"
    using s splitHyphen_nonempty [of r] by (cases "splitHyphen r") auto
  have "splitHyphen v ! 1 = hd (splitHyphen r)"
    using s splitHyphen_nonempty [of r] by (cases "splitHyphen r") auto
  also have "\<dots> = takeWhile (\<lambda>c. c \<noteq> CHR ''-'') r"
    using splitHyphen_decomp [of r] by (metis list.sel(1))
  finally show "splitHyphen v ! 1 = takeWhile (\<lambda>c. c \<noteq> CHR ''-'') (tl (dropWhile (\<lambda>c. c \<noteq> CHR ''-'') v))"
    using dr by simp
qed

text \<open>
  C10. The destination network identifier of a create request is the second
  hyphen-separated component of the session's network reference value (line 225), and
  indexing that component stays in range exactly when the value contains a hyphen:
  without one, assembling the configuration panics with an index out of range (also in
  the handler, once the working directory, path and image are present); with one, the
  configuration carries the text between the first hyphen and the next.
\<close>

theorem networkName_second_component:
  fixes env :: "'n env"
  defines "v \<equiv> ss_NetworkRefValue (execSession env)"
  shows
  "((\<exists>n. networkName v = Inr n) \<longleftrightarrow> CHR ''-'' \<in> set v) \<and>
   (CHR ''-'' \<in> set v \<longrightarrow>
      networkName v = Inr (splitHyphen v ! 1) \<and>
      splitHyphen v ! 1 =
        takeWhile (\<lambda>c. c \<noteq> CHR ''-'') (tl (dropWhile (\<lambda>c. c \<noteq> CHR ''-'') v))) \<and>
   (CHR ''-'' \<notin> set v \<longrightarrow> networkName v = Inl IndexOutOfRange) \<and>
   (\<forall>cfg. createSpecconfig env cc cid name m = Inr cfg \<longrightarrow>
      CHR ''-'' \<in> set v \<and> vc_NetworkName cfg = splitHyphen v ! 1) \<and>
   (CHR ''-'' \<notin> set v \<and> cc_Image cc \<noteq> None \<longrightarrow>
      createSpecconfig env cc cid name m = Inl IndexOutOfRange) \<and>
   (CHR ''-'' \<notin> set v \<and> cc_Image (pr_CreateConfig params) \<noteq> None \<and>
    cc_WorkingDir (pr_CreateConfig params) \<noteq> None \<and> cc_Path (pr_CreateConfig params) \<noteq> None \<longrightarrow>
      fst (ContainerCreateHandler env params w) = Panics IndexOutOfRange)"
proof -
  have nn: "networkName v =
      (if CHR ''-'' \<in> set v then Inr (splitHyphen v ! 1) else Inl IndexOutOfRange)"
    using second_component(1) [of v] splitHyphen_no_hyphen [of v]
    by (cases "CHR ''-'' \<in> set v") (simp_all add: networkName_def)
  have a: "(\<exists>n. networkName v = Inr n) \<longleftrightarrow> CHR ''-'' \<in> set v"
    by (simp add: nn)
  have b: "CHR ''-'' \<in> set v \<longrightarrow>
      networkName v = Inr (splitHyphen v ! 1) \<and>
      splitHyphen v ! 1 =
        takeWhile (\<lambda>c. c \<noteq> CHR ''-'') (tl (dropWhile (\<lambda>c. c \<noteq> CHR ''-'') v))"
    using second_component(2) [of v] by (simp add: nn)
  have c: "CHR ''-'' \<notin> set v \<longrightarrow> networkName v = Inl IndexOutOfRange"
    by (simp add: nn)
  have d: "\<forall>cfg. createSpecconfig env cc cid name m = Inr cfg \<longrightarrow>
      CHR ''-'' \<in> set v \<and> vc_NetworkName cfg = splitHyphen v ! 1"
    using nn by (auto simp: createSpecconfig_def v_def split: option.splits sum.splits if_splits)
  have e: "CHR ''-'' \<notin> set v \<and> cc_Image cc \<noteq> None \<longrightarrow>
      createSpecconfig env cc cid name m = Inl IndexOutOfRange" for cc cid name m
    using nn by (auto simp: createSpecconfig_def v_def split: option.splits sum.splits if_splits)
  have f: "CHR ''-'' \<notin> set v \<and> cc_Image (pr_CreateConfig params) \<noteq> None \<and>
    cc_WorkingDir (pr_CreateConfig params) \<noteq> None \<and> cc_Path (pr_CreateConfig params) \<noteq> None \<longrightarrow>
      fst (ContainerCreateHandler env params w) = Panics IndexOutOfRange"
    using e by (auto simp: ContainerCreateHandler_def buildAndCreate_def Let_def split: prod.splits)
  show ?thesis using a b c d e [of cc cid name m] f by blast
qed

theorem networkName_second_component_witness:
  "networkName ''network-42'' = Inr ''42'' \<and>
   (\<exists>cfg. createSpecconfig demoEnv demoConfig ''c0ffee'' ''web'' (createMetadata ''c0ffee'' ''web'' (createCmd demoConfig ''/'' ''/bin/sh'')) = Inr cfg \<and>
      vc_NetworkName cfg = ''42'') \<and>
   fst (ContainerCreateHandler
          (demoEnv\<lparr>execSession := (execSession demoEnv)\<lparr>ss_NetworkRefValue := ''network''\<rparr>\<rparr>)
          demoParams demoWorld) = Panics IndexOutOfRange"
  using networkName_second_component [where env = demoEnv and cc = demoConfig
      and cid = "''c0ffee''" and name = "''web''"
      and m = "createMetadata ''c0ffee'' ''web'' (createCmd demoConfig ''/'' ''/bin/sh'')"]
    networkName_second_component [where
      env = "demoEnv\<lparr>execSession := (execSession demoEnv)\<lparr>ss_NetworkRefValue := ''network''\<rparr>\<rparr>"
      and params = demoParams and w = demoWorld]
  by (simp add: demoEnv_def demoParams_def demoConfig_def createSpecconfig_def)

section \<open>Facts about the handlers\<close>

lemma requestedIP_invalid:
  "nc_Address ns = Some a \<Longrightarrow> ParseIP env a = None \<Longrightarrow>
     requestedIP env ns = Inl ''invalid ip address''"
  by (simp add: requestedIP_def)

lemma allocateIn_invalid:
  "requestedIP env ns = Inl e \<Longrightarrow> allocateIn env name ns s w = ((None, None, Some e), w)"
  by (simp add: allocateIn_def)

lemma allocateIn_added:
  "requestedIP env ns = Inr ipo \<Longrightarrow> AddContainer env s name ipo (net w) = (Inr e, n') \<Longrightarrow>
     allocateIn env name ns s w =
       ((Some (endpointMetadata e), Some s, None),
        w\<lparr>net := n', calls := calls w @ [CallAddContainer s name ipo]\<rparr>)"
  by (simp add: allocateIn_def issue_def)

lemma addContainerToScope_resolved:
  assumes "nc_NetworkName ns = ''default'' \<and> s = DefaultScope env (net w) \<or>
           nc_NetworkName ns \<noteq> ''default'' \<and> Scopes env (nc_NetworkName ns) (net w) = ([s], None)"
  shows "addContainerToScope env name (Some ns) w = allocateIn env name ns s w"
  using assms by (auto simp: addContainerToScope_def)

text \<open>Each part of the create handler only appends to the calls, and the
  configuration handed to the guest builder is the one assembled at lines 209-230.\<close>

lemma calls_allocateIn:
  "\<exists>cs. calls (snd (allocateIn env name ns s w)) = calls w @ cs \<and>
        (\<forall>c \<in> set cs. callName c = ''AddContainer'')"
  by (auto simp: allocateIn_def issue_def split: sum.splits prod.splits)

lemma calls_addContainerToScope:
  "\<exists>cs. calls (snd (addContainerToScope env name nso w)) = calls w @ cs \<and>
        (\<forall>c \<in> set cs. callName c = ''AddContainer'')"
  using calls_allocateIn [of env name _ _ w]
  by (auto simp: addContainerToScope_def split: option.splits prod.splits)

lemma calls_deferredRelease:
  "\<exists>cs. calls (deferredRelease env name so err w) = calls w @ cs \<and>
        (\<forall>c \<in> set cs. callName c = ''RemoveContainer'')"
  by (auto simp: deferredRelease_def issue_def split: option.splits prod.splits)

lemma calls_placeAndCreate:
  "\<exists>cs. calls (snd (snd (placeAndCreate env cid linux w))) = calls w @ cs \<and>
        (\<forall>c \<in> set cs. callName c \<noteq> ''NewLinuxGuest'')"
  by (auto simp: placeAndCreate_def issue_def Let_def split: sum.splits option.splits)

lemma calls_buildAndCreate:
  "\<exists>cs. calls (snd (snd (buildAndCreate env cc cid name m err w))) = calls w @ cs \<and>
        (\<forall>c \<in> set cs. callName c = ''NewLinuxGuest'' \<longrightarrow>
           (\<exists>cfg. c = CallNewLinuxGuest cfg \<and> createSpecconfig env cc cid name m = Inr cfg))"
proof (cases "createSpecconfig env cc cid name m")
  case (Inl p)
  then show ?thesis by (simp add: buildAndCreate_def)
next
  case (Inr cfg)
  show ?thesis
  proof (cases "NewLinuxGuest env cfg")
    case (Inl e)
    then show ?thesis using Inr by (simp add: buildAndCreate_def issue_def)
  next
    case (Inr linux)
    obtain cs where cs: "calls (snd (snd (placeAndCreate env cid linux (issue (CallNewLinuxGuest cfg) w)))) =
        calls (issue (CallNewLinuxGuest cfg) w) @ cs" "\<forall>c \<in> set cs. callName c \<noteq> ''NewLinuxGuest''"
      using calls_placeAndCreate by blast
    have "calls (snd (snd (buildAndCreate env cc cid name m err w))) = calls w @ (CallNewLinuxGuest cfg # cs)"
      using cs(1) Inr \<open>createSpecconfig env cc cid name m = Inr cfg\<close>
      by (simp add: buildAndCreate_def issue_def)
    moreover have "\<forall>c \<in> set (CallNewLinuxGuest cfg # cs). callName c = ''NewLinuxGuest'' \<longrightarrow>
           (\<exists>cfg. c = CallNewLinuxGuest cfg \<and> createSpecconfig env cc cid name m = Inr cfg)"
      using cs(2) \<open>createSpecconfig env cc cid name m = Inr cfg\<close> by auto
    ultimately show ?thesis by blast
  qed
qed

lemma handler_builder_config:
  fixes env :: "'n env" and params :: ContainerCreateParams
  defines "cc \<equiv> pr_CreateConfig params"
  defines "name \<equiv> (case pr_Name params of None \<Rightarrow> randomName env | Some n \<Rightarrow> n)"
  assumes "CallNewLinuxGuest cfg \<in>
             set (drop (length (calls w)) (calls (snd (ContainerCreateHandler env params w))))"
  shows "\<exists>dir path. cc_WorkingDir cc = Some dir \<and> cc_Path cc = Some path \<and>
           createSpecconfig env cc (genID env) name
             (recordEndpoint (fst (fst (addContainerToScope env name (cc_NetworkSettings cc) w)))
                (createMetadata (genID env) name (createCmd cc dir path))) = Inr cfg"
proof (cases "cc_WorkingDir cc")
  case None
  then show ?thesis using assms by (simp add: ContainerCreateHandler_def)
next
  case (Some dir)
  show ?thesis
  proof (cases "cc_Path cc")
    case None
    then show ?thesis using assms Some by (simp add: ContainerCreateHandler_def)
  next
    case (Some path)
    define A where "A = addContainerToScope env name (cc_NetworkSettings cc) w"
    define m where "m = recordEndpoint (fst (fst A)) (createMetadata (genID env) name (createCmd cc dir path))"
    define B where "B = buildAndCreate env cc (genID env) name m (snd (snd (fst A))) (snd A)"
    define W where "W = deferredRelease env name (fst (snd (fst A))) (fst (snd B)) (snd (snd B))"
    have h: "snd (ContainerCreateHandler env params w) = W"
      using Some \<open>cc_WorkingDir cc = Some dir\<close>
      by (simp add: ContainerCreateHandler_def W_def B_def m_def A_def cc_def name_def Let_def
            split: prod.splits)
    obtain c1 where c1: "calls (snd A) = calls w @ c1" "\<forall>c \<in> set c1. callName c = ''AddContainer''"
      using calls_addContainerToScope unfolding A_def by blast
    obtain c2 where c2: "calls (snd (snd B)) = calls (snd A) @ c2"
        "\<forall>c \<in> set c2. callName c = ''NewLinuxGuest'' \<longrightarrow>
           (\<exists>cfg. c = CallNewLinuxGuest cfg \<and> createSpecconfig env cc (genID env) name m = Inr cfg)"
      using calls_buildAndCreate unfolding B_def by blast
    obtain c3 where c3: "calls W = calls (snd (snd B)) @ c3" "\<forall>c \<in> set c3. callName c = ''RemoveContainer''"
      using calls_deferredRelease unfolding W_def by blast
    have "CallNewLinuxGuest cfg \<in> set (c1 @ c2 @ c3)"
      using assms(3) h c1(1) c2(1) c3(1) by simp
    then have "CallNewLinuxGuest cfg \<in> set c2"
      using c1(2) c3(2) by auto
    then have "createSpecconfig env cc (genID env) name m = Inr cfg"
      using c2(2) by fastforce
    then show ?thesis
      using Some \<open>cc_WorkingDir cc = Some dir\<close> unfolding m_def A_def by blast
  qed
qed

lemma createSpecconfig_total:
  "cc_Image cc = Some img \<Longrightarrow> CHR ''-'' \<in> set (ss_NetworkRefValue (execSession env)) \<Longrightarrow>
     \<exists>cfg. createSpecconfig env cc cid name m = Inr cfg"
  using second_component(1) [of "ss_NetworkRefValue (execSession env)"]
  by (simp add: createSpecconfig_def networkName_def)

lemma createSpecconfig_Metadata:
  "createSpecconfig env cc cid name m = Inr cfg \<Longrightarrow> vc_Metadata cfg = m"
  by (auto simp: createSpecconfig_def split: option.splits sum.splits)

lemma handler_calls_builder:
  fixes env :: "'n env"
  assumes "cc_WorkingDir (pr_CreateConfig params) = Some dir"
    and "cc_Path (pr_CreateConfig params) = Some path"
    and "cc_Image (pr_CreateConfig params) = Some img"
    and "CHR ''-'' \<in> set (ss_NetworkRefValue (execSession env))"
  shows "\<exists>cfg. CallNewLinuxGuest cfg \<in>
             set (drop (length (calls w)) (calls (snd (ContainerCreateHandler env params w))))"
proof -
  define cc where "cc = pr_CreateConfig params"
  define name where "name = (case pr_Name params of None \<Rightarrow> randomName env | Some n \<Rightarrow> n)"
  define A where "A = addContainerToScope env name (cc_NetworkSettings cc) w"
  define m where "m = recordEndpoint (fst (fst A)) (createMetadata (genID env) name (createCmd cc dir path))"
  define B where "B = buildAndCreate env cc (genID env) name m (snd (snd (fst A))) (snd A)"
  define W where "W = deferredRelease env name (fst (snd (fst A))) (fst (snd B)) (snd (snd B))"
  have h: "snd (ContainerCreateHandler env params w) = W"
    using assms(1,2)
    by (simp add: ContainerCreateHandler_def W_def B_def m_def A_def cc_def name_def Let_def
          split: prod.splits)
  obtain cfg where cfg: "createSpecconfig env cc (genID env) name m = Inr cfg"
    using createSpecconfig_total assms(3,4) unfolding cc_def by blast
  obtain c1 where c1: "calls (snd A) = calls w @ c1"
    using calls_addContainerToScope unfolding A_def by blast
  have "\<exists>c2. calls (snd (snd B)) = calls (snd A) @ CallNewLinuxGuest cfg # c2"
  proof (cases "NewLinuxGuest env cfg")
    case (Inl e)
    then show ?thesis using cfg by (simp add: B_def buildAndCreate_def issue_def)
  next
    case (Inr linux)
    obtain cs where "calls (snd (snd (placeAndCreate env (genID env) linux (issue (CallNewLinuxGuest cfg) (snd A))))) =
        calls (issue (CallNewLinuxGuest cfg) (snd A)) @ cs"
      using calls_placeAndCreate by blast
    then show ?thesis using cfg Inr by (simp add: B_def buildAndCreate_def issue_def)
  qed
  then obtain c2 where c2: "calls (snd (snd B)) = calls (snd A) @ CallNewLinuxGuest cfg # c2" by blast
  obtain c3 where c3: "calls W = calls (snd (snd B)) @ c3"
    using calls_deferredRelease unfolding W_def by blast
  have "CallNewLinuxGuest cfg \<in> set (drop (length (calls w)) (calls W))"
    using c1 c2 c3 by simp
  then show ?thesis using h by auto
qed

lemma placeAndCreate_first_call:
  "\<exists>post. calls (snd (snd (placeAndCreate env cid linux w))) = calls w @ CallFolders # post"
  by (auto simp: placeAndCreate_def issue_def Let_def split: sum.splits option.splits)

text \<open>A run of the create handler on the concrete deployment, with every call it
  issues.\<close>

lemma demo_create:
  "ContainerCreateHandler demoEnv demoParams demoWorld =
     (Returns (ContainerCreateOK ''c0ffee''),
      \<lparr>net = [(''custom'', ''web'')],
       calls = [CallAddContainer customScope ''web'' None,
                CallNewLinuxGuest
                  \<lparr>vc_NumCPUs = 2, vc_MemoryMB = 2048, vc_ConnectorURI = ''tcp://127.0.0.1:2377'',
                   vc_ID = ''c0ffee'', vc_Name = ''web'', vc_ParentImageID = ''img1'',
                   vc_BootMediaPath = ''[ds1] vch1/bootstrap.iso'', vc_VMPathName = ''[ds1]'',
                   vc_NetworkName = ''42'', vc_ImageStoreName = ''store1'',
                   vc_Metadata =
                     \<lparr>ec_ID = ''c0ffee'', ec_Name = ''web'',
                      ec_Sessions =
                        [''c0ffee'' \<mapsto>
                           \<lparr>sc_ID = ''c0ffee'', sc_Tty = False, sc_Attach = True,
                            sc_Cmd = \<lparr>cmd_Env = [], cmd_Dir = ''/'', cmd_Path = ''/bin/sh'',
                                      cmd_Args = [''/bin/sh'', ''-c'', ''true'']\<rparr>\<rparr>],
                      ec_Networks =
                        [''custom'' \<mapsto>
                           \<lparr>ne_IP = \<lparr>ipn_IP = [10, 0, 0, 2], ipn_Mask = [255, 255, 255, 0]\<rparr>,
                            ne_Network =
                              \<lparr>cn_Name = ''custom'',
                               cn_Gateway = \<lparr>ipn_IP = [10, 0, 0, 1], ipn_Mask = [255, 255, 255, 0]\<rparr>\<rparr>\<rparr>]\<rparr>\<rparr>,
                CallFolders, CallAttachedClusterHosts,
                CallCreateVM ''vmfolder'' ''c0ffee'' ''pool-1'' ''host-1'']\<rparr>)"
  by (simp add: ContainerCreateHandler_def demoEnv_def demoParams_def demoConfig_def demoWorld_def
        addContainerToScope_def allocateIn_def requestedIP_def endpointMetadata_def demoEndpoint_def
        customScope_def createMetadata_def createCmd_def recordEndpoint_def buildAndCreate_def
        createSpecconfig_def networkName_def placeAndCreate_def deferredRelease_def issue_def Let_def)

section \<open>The claims about addContainerToScope\<close>

text \<open>
  C6. An attach call with an absent network request returns no endpoint, no scope
  handle and no error, and leaves the state as it was: the network state is unchanged
  and no call is issued.
\<close>

theorem addContainerToScope_absent:
  "addContainerToScope env name None w = ((None, None, None), w)"
  by (simp add: addContainerToScope_def)

theorem addContainerToScope_absent_witness:
  "fst (addContainerToScope demoEnv ''web'' None demoWorld) = (None, None, None) \<and>
   net (snd (addContainerToScope demoEnv ''web'' None demoWorld)) = [] \<and>
   calls (snd (addContainerToScope demoEnv ''web'' None demoWorld)) = []"
  using addContainerToScope_absent [of demoEnv "''web''" demoWorld]
  by (simp add: demoWorld_def)

text \<open>
  C1. For an attach call naming a network other than \<open>''default''\<close>, when the
  lookup yields zero scopes or more than one, no endpoint and no scope are returned and
  the state is unchanged (nothing is allocated, no call is issued). The error returned is
  the error of the lookup itself (line 100): when the lookup reports none, the call
  returns no error at all, and the create handler goes on without a network.
\<close>

theorem attach_unresolved_scope:
  assumes "nc_NetworkName ns \<noteq> ''default''"
    and "Scopes env (nc_NetworkName ns) (net w) = (scopes, err)"
    and "length scopes \<noteq> 1"
  shows "addContainerToScope env name (Some ns) w = ((None, None, err), w)"
  using assms by (simp add: addContainerToScope_def)

theorem attach_unresolved_scope_witness:
  "addContainerToScope (demoEnv\<lparr>Scopes := (\<lambda>nm n. ([bridgeScope, customScope], None))\<rparr>) ''web''
      (Some \<lparr>nc_NetworkName = ''prod'', nc_Address = None\<rparr>) demoWorld =
     ((None, None, None), demoWorld) \<and>
   addContainerToScope (demoEnv\<lparr>Scopes := (\<lambda>nm n. ([], None))\<rparr>) ''web''
      (Some \<lparr>nc_NetworkName = ''prod'', nc_Address = None\<rparr>) demoWorld =
     ((None, None, None), demoWorld)"
  using attach_unresolved_scope [where env = "demoEnv\<lparr>Scopes := (\<lambda>nm n. ([bridgeScope, customScope], None))\<rparr>"
      and ns = "\<lparr>nc_NetworkName = ''prod'', nc_Address = None\<rparr>" and w = demoWorld
      and scopes = "[bridgeScope, customScope]" and err = None and name = "''web''"]
    attach_unresolved_scope [where env = "demoEnv\<lparr>Scopes := (\<lambda>nm n. ([], None))\<rparr>"
      and ns = "\<lparr>nc_NetworkName = ''prod'', nc_Address = None\<rparr>" and w = demoWorld
      and scopes = "[]" and err = None and name = "''web''"]
  by simp

text \<open>With two matching scopes and no lookup error, the create handler returns success
  and asks for the virtual machine; no scope is involved.\<close>

lemma create_after_unresolved_scope:
  "fst (ContainerCreateHandler (demoEnv\<lparr>Scopes := (\<lambda>nm n. ([bridgeScope, customScope], None))\<rparr>)
         (demoParams\<lparr>pr_CreateConfig := demoConfig\<lparr>cc_NetworkSettings :=
            Some \<lparr>nc_NetworkName = ''prod'', nc_Address = None\<rparr>\<rparr>\<rparr>) demoWorld) =
     Returns (ContainerCreateOK ''c0ffee'') \<and>
   map callName (calls (snd (ContainerCreateHandler
         (demoEnv\<lparr>Scopes := (\<lambda>nm n. ([bridgeScope, customScope], None))\<rparr>)
         (demoParams\<lparr>pr_CreateConfig := demoConfig\<lparr>cc_NetworkSettings :=
            Some \<lparr>nc_NetworkName = ''prod'', nc_Address = None\<rparr>\<rparr>\<rparr>) demoWorld))) =
     [''NewLinuxGuest'', ''Folders'', ''AttachedClusterHosts'', ''CreateVM'']"
  by (simp add: ContainerCreateHandler_def demoEnv_def demoParams_def demoConfig_def demoWorld_def
        addContainerToScope_def createMetadata_def createCmd_def recordEndpoint_def buildAndCreate_def
        createSpecconfig_def networkName_def placeAndCreate_def deferredRelease_def issue_def Let_def)

text \<open>
  C5 (amended). For an attach call that requests a static address that does not parse:
  when the scope is resolved (the default network, or a lookup that yields exactly one
  scope and no error), the call fails with the error \<open>''invalid ip address''\<close>; and
  whatever the resolution gives, no endpoint is returned and the state is unchanged, so
  \<^verbatim>\<open>AddContainer\<close> is never invoked. The scope is resolved before the address is
  parsed (lines 91-105 before 107-115), so a failed resolution is reported instead.
\<close>

theorem attach_invalid_address:
  assumes "nc_Address ns = Some a" and "ParseIP env a = None"
  shows
    "(nc_NetworkName ns = ''default'' \<or>
      (\<exists>s. Scopes env (nc_NetworkName ns) (net w) = ([s], None)) \<longrightarrow>
        addContainerToScope env name (Some ns) w =
          ((None, None, Some ''invalid ip address''), w)) \<and>
     fst (fst (addContainerToScope env name (Some ns) w)) = None \<and>
     snd (addContainerToScope env name (Some ns) w) = w"
proof -
  have inv: "allocateIn env name ns s w = ((None, None, Some ''invalid ip address''), w)" for s
    using assms by (simp add: allocateIn_invalid requestedIP_invalid)
  have a: "nc_NetworkName ns = ''default'' \<or>
      (\<exists>s. Scopes env (nc_NetworkName ns) (net w) = ([s], None)) \<longrightarrow>
        addContainerToScope env name (Some ns) w =
          ((None, None, Some ''invalid ip address''), w)"
    by (auto simp: addContainerToScope_def inv)
  have b: "fst (fst (addContainerToScope env name (Some ns) w)) = None"
    by (simp add: addContainerToScope_def inv split: prod.splits)
  have c: "snd (addContainerToScope env name (Some ns) w) = w"
    by (simp add: addContainerToScope_def inv split: prod.splits)
  show ?thesis using a b c by blast
qed

theorem attach_invalid_address_witness:
  "addContainerToScope demoEnv ''web''
      (Some \<lparr>nc_NetworkName = ''custom'', nc_Address = Some ''10.0.0.256''\<rparr>) demoWorld =
     ((None, None, Some ''invalid ip address''), demoWorld)"
  using attach_invalid_address [where env = demoEnv and name = "''web''" and w = demoWorld
      and ns = "\<lparr>nc_NetworkName = ''custom'', nc_Address = Some ''10.0.0.256''\<rparr>"
      and a = "''10.0.0.256''"]
  by (simp add: demoEnv_def)

text \<open>When the lookup of the named network fails, the caller gets the lookup's error
  for an address that does not parse.\<close>

theorem attach_invalid_address_counterexample:
  "nc_Address \<lparr>nc_NetworkName = ''prod'', nc_Address = Some ''10.0.0.256''\<rparr> = Some ''10.0.0.256'' \<and>
   ParseIP demoEnv ''10.0.0.256'' = None \<and>
   addContainerToScope demoEnv ''web''
      (Some \<lparr>nc_NetworkName = ''prod'', nc_Address = Some ''10.0.0.256''\<rparr>) demoWorld =
     ((None, None, Some ''no such network''), demoWorld) \<and>
   ''no such network'' \<noteq> ''invalid ip address''"
  by (simp add: demoEnv_def addContainerToScope_def)

text \<open>
  C7. For an attach call that resolves one scope \<open>s\<close> (the default scope, or the only
  result of an error-free lookup) and whose \<^verbatim>\<open>AddContainer\<close> on \<open>s\<close> succeeds with
  the endpoint \<open>e\<close>: the call returns the endpoint metadata and \<open>s\<close>; the mask of
  its address and the mask of its gateway are both the mask of \<open>e\<close>'s subnet; its
  network name is the name of \<open>e\<close>'s scope; these are the subnet mask and the name of
  \<open>s\<close> for an endpoint that belongs to \<open>s\<close> and carries its subnet; and the metadata
  is recorded under that name in the container metadata (lines 205-207), also in the
  configuration the create handler hands to the guest builder.
\<close>

theorem attach_endpoint_of_scope:
  fixes env :: "'n env"
  assumes res: "nc_NetworkName ns = ''default'' \<and> s = DefaultScope env (net w) \<or>
           nc_NetworkName ns \<noteq> ''default'' \<and> Scopes env (nc_NetworkName ns) (net w) = ([s], None)"
    and ip: "requestedIP env ns = Inr ipo"
    and add: "AddContainer env s name ipo (net w) = (Inr e, n')"
  shows
    "\<exists>ne. addContainerToScope env name (Some ns) w =
            ((Some ne, Some s, None), w\<lparr>net := n', calls := calls w @ [CallAddContainer s name ipo]\<rparr>) \<and>
          ipn_Mask (ne_IP ne) = ipn_Mask (ep_Subnet e) \<and>
          ipn_Mask (cn_Gateway (ne_Network ne)) = ipn_Mask (ep_Subnet e) \<and>
          cn_Name (ne_Network ne) = scope_Name (ep_Scope e) \<and>
          (ep_Scope e = s \<and> ep_Subnet e = scope_Subnet s \<longrightarrow>
             ipn_Mask (ne_IP ne) = ipn_Mask (scope_Subnet s) \<and>
             ipn_Mask (cn_Gateway (ne_Network ne)) = ipn_Mask (scope_Subnet s) \<and>
             cn_Name (ne_Network ne) = scope_Name s) \<and>
          (\<forall>m. ec_Networks (recordEndpoint (Some ne) m) (scope_Name (ep_Scope e)) = Some ne) \<and>
          (\<forall>params cfg.
             cc_NetworkSettings (pr_CreateConfig params) = Some ns \<and>
             name = (case pr_Name params of None \<Rightarrow> randomName env | Some n \<Rightarrow> n) \<and>
             CallNewLinuxGuest cfg \<in>
               set (drop (length (calls w)) (calls (snd (ContainerCreateHandler env params w)))) \<longrightarrow>
             ec_Networks (vc_Metadata cfg) (scope_Name (ep_Scope e)) = Some ne)"
proof -
  define ne where "ne = endpointMetadata e"
  have a: "addContainerToScope env name (Some ns) w =
            ((Some ne, Some s, None), w\<lparr>net := n', calls := calls w @ [CallAddContainer s name ipo]\<rparr>)"
    using addContainerToScope_resolved [OF res] allocateIn_added [OF ip add] by (simp add: ne_def)
  have b: "ipn_Mask (ne_IP ne) = ipn_Mask (ep_Subnet e)"
    "ipn_Mask (cn_Gateway (ne_Network ne)) = ipn_Mask (ep_Subnet e)"
    "cn_Name (ne_Network ne) = scope_Name (ep_Scope e)"
    by (simp_all add: ne_def endpointMetadata_def)
  have c: "ec_Networks (recordEndpoint (Some ne) m) (scope_Name (ep_Scope e)) = Some ne" for m
    using b(3) by (simp add: recordEndpoint_def)
  have d: "ec_Networks (vc_Metadata cfg) (scope_Name (ep_Scope e)) = Some ne"
    if ns: "cc_NetworkSettings (pr_CreateConfig params) = Some ns"
      and nm: "name = (case pr_Name params of None \<Rightarrow> randomName env | Some n \<Rightarrow> n)"
      and h: "CallNewLinuxGuest cfg \<in>
               set (drop (length (calls w)) (calls (snd (ContainerCreateHandler env params w))))"
    for params cfg
  proof -
    obtain dir path where "createSpecconfig env (pr_CreateConfig params) (genID env) name
             (recordEndpoint (fst (fst (addContainerToScope env name (Some ns) w)))
                (createMetadata (genID env) name (createCmd (pr_CreateConfig params) dir path))) = Inr cfg"
      using handler_builder_config [OF h] ns nm by auto
    then have "vc_Metadata cfg = recordEndpoint (Some ne)
                (createMetadata (genID env) name (createCmd (pr_CreateConfig params) dir path))"
      using createSpecconfig_Metadata a by fastforce
    then show ?thesis using c by simp
  qed
  have d': "\<forall>params cfg.
             cc_NetworkSettings (pr_CreateConfig params) = Some ns \<and>
             name = (case pr_Name params of None \<Rightarrow> randomName env | Some n \<Rightarrow> n) \<and>
             CallNewLinuxGuest cfg \<in>
               set (drop (length (calls w)) (calls (snd (ContainerCreateHandler env params w)))) \<longrightarrow>
             ec_Networks (vc_Metadata cfg) (scope_Name (ep_Scope e)) = Some ne"
    using d by blast
  have e': "ep_Scope e = s \<and> ep_Subnet e = scope_Subnet s \<longrightarrow>
             ipn_Mask (ne_IP ne) = ipn_Mask (scope_Subnet s) \<and>
             ipn_Mask (cn_Gateway (ne_Network ne)) = ipn_Mask (scope_Subnet s) \<and>
             cn_Name (ne_Network ne) = scope_Name s"
    using b by simp
  have c': "\<forall>m. ec_Networks (recordEndpoint (Some ne) m) (scope_Name (ep_Scope e)) = Some ne"
    using c by blast
  show ?thesis using a b e' c' d' by blast
qed

theorem attach_endpoint_of_scope_witness:
  "\<exists>ne cfg. addContainerToScope demoEnv ''web''
            (Some \<lparr>nc_NetworkName = ''custom'', nc_Address = None\<rparr>) demoWorld =
          ((Some ne, Some customScope, None),
           \<lparr>net = [(''custom'', ''web'')], calls = [CallAddContainer customScope ''web'' None]\<rparr>) \<and>
        ipn_Mask (ne_IP ne) = [255, 255, 255, 0] \<and>
        ipn_Mask (cn_Gateway (ne_Network ne)) = [255, 255, 255, 0] \<and>
        cn_Name (ne_Network ne) = ''custom'' \<and>
        CallNewLinuxGuest cfg \<in> set (calls (snd (ContainerCreateHandler demoEnv demoParams demoWorld))) \<and>
        ec_Networks (vc_Metadata cfg) ''custom'' = Some ne"
proof -
  let ?ns = "\<lparr>nc_NetworkName = ''custom'', nc_Address = None\<rparr>"
  let ?e = "demoEndpoint customScope None"
  have res: "nc_NetworkName ?ns = ''default'' \<and> customScope = DefaultScope demoEnv (net demoWorld) \<or>
      nc_NetworkName ?ns \<noteq> ''default'' \<and>
      Scopes demoEnv (nc_NetworkName ?ns) (net demoWorld) = ([customScope], None)"
    by (simp add: demoEnv_def)
  have ip: "requestedIP demoEnv ?ns = Inr None"
    by (simp add: requestedIP_def)
  have add: "AddContainer demoEnv customScope ''web'' None (net demoWorld) =
      (Inr ?e, [(''custom'', ''web'')])"
    by (simp add: demoEnv_def demoWorld_def customScope_def)
  from attach_endpoint_of_scope [OF res ip add] obtain ne where
    a: "addContainerToScope demoEnv ''web'' (Some ?ns) demoWorld =
          ((Some ne, Some customScope, None),
           demoWorld\<lparr>net := [(''custom'', ''web'')],
                     calls := calls demoWorld @ [CallAddContainer customScope ''web'' None]\<rparr>)"
    and m: "ipn_Mask (ne_IP ne) = ipn_Mask (ep_Subnet ?e)"
      "ipn_Mask (cn_Gateway (ne_Network ne)) = ipn_Mask (ep_Subnet ?e)"
      "cn_Name (ne_Network ne) = scope_Name (ep_Scope ?e)"
    and h: "\<forall>params cfg.
             cc_NetworkSettings (pr_CreateConfig params) = Some ?ns \<and>
             ''web'' = (case pr_Name params of None \<Rightarrow> randomName demoEnv | Some n \<Rightarrow> n) \<and>
             CallNewLinuxGuest cfg \<in>
               set (drop (length (calls demoWorld))
                 (calls (snd (ContainerCreateHandler demoEnv params demoWorld)))) \<longrightarrow>
             ec_Networks (vc_Metadata cfg) (scope_Name (ep_Scope ?e)) = Some ne"
    by blast
  obtain cfg where c: "CallNewLinuxGuest cfg \<in> set (drop (length (calls demoWorld))
        (calls (snd (ContainerCreateHandler demoEnv demoParams demoWorld))))"
    using handler_calls_builder [where params = demoParams and env = demoEnv and w = demoWorld
        and dir = "''/''" and path = "''/bin/sh''" and img = "''img1''"]
    by (auto simp: demoParams_def demoConfig_def demoEnv_def)
  have n: "ec_Networks (vc_Metadata cfg) (scope_Name (ep_Scope ?e)) = Some ne"
  proof -
    have "cc_NetworkSettings (pr_CreateConfig demoParams) = Some ?ns \<and>
        ''web'' = (case pr_Name demoParams of None \<Rightarrow> randomName demoEnv | Some n \<Rightarrow> n)"
      by (simp add: demoParams_def demoConfig_def)
    then show ?thesis using h c by blast
  qed
  have 1: "addContainerToScope demoEnv ''web'' (Some ?ns) demoWorld =
          ((Some ne, Some customScope, None),
           \<lparr>net = [(''custom'', ''web'')], calls = [CallAddContainer customScope ''web'' None]\<rparr>)"
    using a by (simp add: demoWorld_def)
  have 2: "ipn_Mask (ne_IP ne) = [255, 255, 255, 0]"
    "ipn_Mask (cn_Gateway (ne_Network ne)) = [255, 255, 255, 0]"
    "cn_Name (ne_Network ne) = ''custom''"
    using m by (simp_all add: demoEndpoint_def customScope_def)
  have 3: "CallNewLinuxGuest cfg \<in> set (calls (snd (ContainerCreateHandler demoEnv demoParams demoWorld)))"
    using c by (simp add: demoWorld_def)
  have 4: "ec_Networks (vc_Metadata cfg) ''custom'' = Some ne"
    using n by (simp add: demoEndpoint_def customScope_def)
  show ?thesis using 1 2 3 4 by blast
qed

section \<open>The claims about ContainerCreateHandler\<close>

text \<open>
  C9. The command descriptor of a create request has the argument list made of the
  command path followed by the client's arguments in their order (line 170); every
  configuration the handler hands to the guest builder embeds, under the container's ID,
  a session whose command has that path and that argument list; and the handler does
  hand one over when the working directory, path and image are present and the network
  reference has a hyphen.
\<close>

theorem create_command_args:
  fixes env :: "'n env" and params :: ContainerCreateParams
  defines "cc \<equiv> pr_CreateConfig params"
  shows
    "cmd_Args (createCmd cc dir path) = path # cc_Args cc \<and>
     (\<forall>cfg. CallNewLinuxGuest cfg \<in>
              set (drop (length (calls w)) (calls (snd (ContainerCreateHandler env params w)))) \<longrightarrow>
        (\<exists>p sc. cc_Path cc = Some p \<and>
           ec_Sessions (vc_Metadata cfg) (genID env) = Some sc \<and>
           cmd_Path (sc_Cmd sc) = p \<and>
           cmd_Args (sc_Cmd sc) = p # cc_Args cc)) \<and>
     (cc_WorkingDir cc \<noteq> None \<and> cc_Path cc \<noteq> None \<and> cc_Image cc \<noteq> None \<and>
      CHR ''-'' \<in> set (ss_NetworkRefValue (execSession env)) \<longrightarrow>
        (\<exists>cfg. CallNewLinuxGuest cfg \<in>
              set (drop (length (calls w)) (calls (snd (ContainerCreateHandler env params w))))))"
proof -
  have a: "cmd_Args (createCmd cc dir path) = path # cc_Args cc"
    by (simp add: createCmd_def)
  have b: "\<exists>p sc. cc_Path cc = Some p \<and>
           ec_Sessions (vc_Metadata cfg) (genID env) = Some sc \<and>
           cmd_Path (sc_Cmd sc) = p \<and>
           cmd_Args (sc_Cmd sc) = p # cc_Args cc"
    if h: "CallNewLinuxGuest cfg \<in>
              set (drop (length (calls w)) (calls (snd (ContainerCreateHandler env params w))))"
    for cfg
  proof -
    obtain d p ne name where p: "cc_Path cc = Some p"
      and c: "createSpecconfig env cc (genID env) name
             (recordEndpoint ne (createMetadata (genID env) name (createCmd cc d p))) = Inr cfg"
      using handler_builder_config [OF h] unfolding cc_def by blast
    have "vc_Metadata cfg = recordEndpoint ne (createMetadata (genID env) name (createCmd cc d p))"
      using createSpecconfig_Metadata [OF c] .
    then have "ec_Sessions (vc_Metadata cfg) (genID env) =
        Some \<lparr>sc_ID = genID env, sc_Tty = False, sc_Attach = True, sc_Cmd = createCmd cc d p\<rparr>"
      by (simp add: recordEndpoint_def createMetadata_def split: option.splits)
    then show ?thesis using p by (simp add: createCmd_def)
  qed
  have c: "cc_WorkingDir cc \<noteq> None \<and> cc_Path cc \<noteq> None \<and> cc_Image cc \<noteq> None \<and>
      CHR ''-'' \<in> set (ss_NetworkRefValue (execSession env)) \<longrightarrow>
        (\<exists>cfg. CallNewLinuxGuest cfg \<in>
              set (drop (length (calls w)) (calls (snd (ContainerCreateHandler env params w)))))"
    using handler_calls_builder [of params _ _ _ env w] unfolding cc_def by auto
  show ?thesis using a b c by blast
qed

theorem create_command_args_witness:
  "cmd_Args (createCmd demoConfig ''/'' ''/bin/sh'') = [''/bin/sh'', ''-c'', ''true''] \<and>
   (\<exists>cfg sc. CallNewLinuxGuest cfg \<in> set (calls (snd (ContainerCreateHandler demoEnv demoParams demoWorld))) \<and>
      ec_Sessions (vc_Metadata cfg) ''c0ffee'' = Some sc \<and>
      cmd_Args (sc_Cmd sc) = [''/bin/sh'', ''-c'', ''true''])"
proof -
  note th = create_command_args [where env = demoEnv and params = demoParams and w = demoWorld
      and dir = "''/''" and path = "''/bin/sh''"]
  have pres: "cc_WorkingDir (pr_CreateConfig demoParams) \<noteq> None \<and>
      cc_Path (pr_CreateConfig demoParams) \<noteq> None \<and> cc_Image (pr_CreateConfig demoParams) \<noteq> None \<and>
      CHR ''-'' \<in> set (ss_NetworkRefValue (execSession demoEnv))"
    by (simp add: demoParams_def demoConfig_def demoEnv_def)
  from th pres obtain cfg where
    c: "CallNewLinuxGuest cfg \<in> set (drop (length (calls demoWorld))
          (calls (snd (ContainerCreateHandler demoEnv demoParams demoWorld))))"
    by blast
  with th obtain p sc where
    s: "cc_Path (pr_CreateConfig demoParams) = Some p"
       "ec_Sessions (vc_Metadata cfg) (genID demoEnv) = Some sc"
       "cmd_Args (sc_Cmd sc) = p # cc_Args (pr_CreateConfig demoParams)"
    by blast
  have 1: "cmd_Args (createCmd demoConfig ''/'' ''/bin/sh'') = [''/bin/sh'', ''-c'', ''true'']"
    using th by (simp add: demoParams_def demoConfig_def)
  have 2: "CallNewLinuxGuest cfg \<in> set (calls (snd (ContainerCreateHandler demoEnv demoParams demoWorld)))"
    using c by (simp add: demoWorld_def)
  have 3: "ec_Sessions (vc_Metadata cfg) ''c0ffee'' = Some sc"
    using s(2) by (simp add: demoEnv_def)
  have 4: "cmd_Args (sc_Cmd sc) = [''/bin/sh'', ''-c'', ''true'']"
    using s(1,3) by (simp add: demoParams_def demoConfig_def)
  show ?thesis using 1 2 3 4 by blast
qed

text \<open>
  C4 (amended). The handler validates no field of the request. When the working
  directory, the path and the image are present and the session's network reference
  contains a hyphen, the configuration is assembled without failure, and the build
  fails exactly when the guest builder, called with that configuration, returns an
  error: the caller then gets the not-found response whose message is
  \<open>''Error constructing container vm specification: ''\<close> followed by the builder's
  error, and nothing is asked of the control plane; when the builder succeeds the
  handler goes on to the folder lookup.
\<close>

theorem build_fails_from_guest_builder:
  fixes env :: "'n env" and params :: ContainerCreateParams
  defines "cc \<equiv> pr_CreateConfig params"
  defines "name \<equiv> (case pr_Name params of None \<Rightarrow> randomName env | Some n \<Rightarrow> n)"
  assumes dir: "cc_WorkingDir cc = Some dir" and path: "cc_Path cc = Some path"
    and img: "cc_Image cc = Some img"
    and hy: "CHR ''-'' \<in> set (ss_NetworkRefValue (execSession env))"
  shows
    "\<exists>cfg. createSpecconfig env cc (genID env) name
             (recordEndpoint (fst (fst (addContainerToScope env name (cc_NetworkSettings cc) w)))
                (createMetadata (genID env) name (createCmd cc dir path))) = Inr cfg \<and>
        (\<forall>e. NewLinuxGuest env cfg = Inl e \<longrightarrow>
           fst (ContainerCreateHandler env params w) =
             Returns (ContainerCreateNotFound
               (''Error constructing container vm specification: '' @ e)) \<and>
           (\<forall>c \<in> set (drop (length (calls w)) (calls (snd (ContainerCreateHandler env params w)))).
              callName c \<in> {''AddContainer'', ''NewLinuxGuest'', ''RemoveContainer''})) \<and>
        (\<forall>linux. NewLinuxGuest env cfg = Inr linux \<longrightarrow>
           (\<exists>pre post. calls (snd (ContainerCreateHandler env params w)) =
              pre @ CallNewLinuxGuest cfg # CallFolders # post))"
proof -
  define A where "A = addContainerToScope env name (cc_NetworkSettings cc) w"
  define m where "m = recordEndpoint (fst (fst A)) (createMetadata (genID env) name (createCmd cc dir path))"
  define B where "B = buildAndCreate env cc (genID env) name m (snd (snd (fst A))) (snd A)"
  define W where "W = deferredRelease env name (fst (snd (fst A))) (fst (snd B)) (snd (snd B))"
  have h: "ContainerCreateHandler env params w = (fst B, W)"
    using dir path
    by (simp add: ContainerCreateHandler_def W_def B_def m_def A_def cc_def name_def Let_def
          split: prod.splits)
  obtain cfg where cfg: "createSpecconfig env cc (genID env) name m = Inr cfg"
    using createSpecconfig_total [OF img hy] by blast
  obtain c1 where c1: "calls (snd A) = calls w @ c1" "\<forall>c \<in> set c1. callName c = ''AddContainer''"
    using calls_addContainerToScope unfolding A_def by blast
  obtain c3 where c3: "calls W = calls (snd (snd B)) @ c3" "\<forall>c \<in> set c3. callName c = ''RemoveContainer''"
    using calls_deferredRelease unfolding W_def by blast
  have fail: "fst (ContainerCreateHandler env params w) =
             Returns (ContainerCreateNotFound
               (''Error constructing container vm specification: '' @ e)) \<and>
           (\<forall>c \<in> set (drop (length (calls w)) (calls (snd (ContainerCreateHandler env params w)))).
              callName c \<in> {''AddContainer'', ''NewLinuxGuest'', ''RemoveContainer''})"
    if e: "NewLinuxGuest env cfg = Inl e" for e
  proof -
    have b: "B = (Returns (ContainerCreateNotFound
               (''Error constructing container vm specification: '' @ e)), Some e,
               issue (CallNewLinuxGuest cfg) (snd A))"
      using cfg e by (simp add: B_def buildAndCreate_def)
    have "calls W = calls w @ c1 @ CallNewLinuxGuest cfg # c3"
      using c3(1) c1(1) b by (simp add: issue_def)
    then show ?thesis using h b c1(2) c3(2) by auto
  qed
  have ok: "\<exists>pre post. calls (snd (ContainerCreateHandler env params w)) =
              pre @ CallNewLinuxGuest cfg # CallFolders # post"
    if l: "NewLinuxGuest env cfg = Inr linux" for linux
  proof -
    have b: "B = placeAndCreate env (genID env) linux (issue (CallNewLinuxGuest cfg) (snd A))"
      using cfg l by (simp add: B_def buildAndCreate_def)
    obtain post where "calls (snd (snd B)) =
        calls (issue (CallNewLinuxGuest cfg) (snd A)) @ CallFolders # post"
      using placeAndCreate_first_call unfolding b by blast
    then have "calls W = calls (snd A) @ CallNewLinuxGuest cfg # CallFolders # (post @ c3)"
      using c3(1) by (simp add: issue_def)
    then show ?thesis using h by auto
  qed
  show ?thesis using cfg fail ok unfolding m_def A_def by blast
qed

text \<open>With every field present the build fails when the guest builder does; a missing
  path or image is a panic, the latter after the endpoint was attached.\<close>

theorem build_fails_from_guest_builder_counterexample:
  "cc_WorkingDir demoConfig = Some ''/'' \<and> cc_Path demoConfig = Some ''/bin/sh'' \<and>
   cc_Image demoConfig = Some ''img1'' \<and>
   fst (ContainerCreateHandler (demoEnv\<lparr>NewLinuxGuest := (\<lambda>c. Inl ''no boot media'')\<rparr>)
          demoParams demoWorld) =
     Returns (ContainerCreateNotFound
       ''Error constructing container vm specification: no boot media'') \<and>
   fst (ContainerCreateHandler demoEnv
          (demoParams\<lparr>pr_CreateConfig := demoConfig\<lparr>cc_Path := None\<rparr>\<rparr>) demoWorld) =
     Panics NilDereference \<and>
   ContainerCreateHandler demoEnv
          (demoParams\<lparr>pr_CreateConfig := demoConfig\<lparr>cc_Image := None\<rparr>\<rparr>) demoWorld =
     (Panics NilDereference,
      \<lparr>net = [(''custom'', ''web'')], calls = [CallAddContainer customScope ''web'' None]\<rparr>)"
  by (simp add: ContainerCreateHandler_def demoEnv_def demoParams_def demoConfig_def demoWorld_def
        addContainerToScope_def allocateIn_def requestedIP_def endpointMetadata_def demoEndpoint_def
        customScope_def createMetadata_def createCmd_def recordEndpoint_def buildAndCreate_def
        createSpecconfig_def networkName_def placeAndCreate_def deferredRelease_def issue_def Let_def)

theorem build_fails_from_guest_builder_witness:
  "fst (ContainerCreateHandler (demoEnv\<lparr>NewLinuxGuest := (\<lambda>c. Inl ''no boot media'')\<rparr>)
          demoParams demoWorld) =
     Returns (ContainerCreateNotFound
       ''Error constructing container vm specification: no boot media'') \<and>
   (\<exists>cfg pre post. calls (snd (ContainerCreateHandler demoEnv demoParams demoWorld)) =
      pre @ CallNewLinuxGuest cfg # CallFolders # post)"
proof -
  let ?B = "demoEnv\<lparr>NewLinuxGuest := (\<lambda>c. Inl ''no boot media'')\<rparr>"
  have dir: "cc_WorkingDir (pr_CreateConfig demoParams) = Some ''/''"
    and path: "cc_Path (pr_CreateConfig demoParams) = Some ''/bin/sh''"
    and img: "cc_Image (pr_CreateConfig demoParams) = Some ''img1''"
    by (simp_all add: demoParams_def demoConfig_def)
  have hy: "CHR ''-'' \<in> set (ss_NetworkRefValue (execSession ?B))"
    "CHR ''-'' \<in> set (ss_NetworkRefValue (execSession demoEnv))"
    by (simp_all add: demoEnv_def)
  obtain cfgB where B: "\<forall>e. NewLinuxGuest ?B cfgB = Inl e \<longrightarrow>
           fst (ContainerCreateHandler ?B demoParams demoWorld) =
             Returns (ContainerCreateNotFound
               (''Error constructing container vm specification: '' @ e))"
    using build_fails_from_guest_builder [OF dir path img hy(1), of demoWorld] by blast
  obtain cfg where A: "\<forall>linux. NewLinuxGuest demoEnv cfg = Inr linux \<longrightarrow>
           (\<exists>pre post. calls (snd (ContainerCreateHandler demoEnv demoParams demoWorld)) =
              pre @ CallNewLinuxGuest cfg # CallFolders # post)"
    using build_fails_from_guest_builder [OF dir path img hy(2), of demoWorld] by blast
  have 1: "fst (ContainerCreateHandler ?B demoParams demoWorld) =
     Returns (ContainerCreateNotFound
       ''Error constructing container vm specification: no boot media'')"
    using B by simp
  have "NewLinuxGuest demoEnv cfg = Inr (vc_ID cfg)" by (simp add: demoEnv_def)
  then have 2: "\<exists>pre post. calls (snd (ContainerCreateHandler demoEnv demoParams demoWorld)) =
      pre @ CallNewLinuxGuest cfg # CallFolders # post"
    using A by blast
  show ?thesis using 1 2 by blast
qed

text \<open>
  C2. When the host lookup of a create request succeeds with an empty host set, the
  handler panics in \<^verbatim>\<open>rand.Intn(0)\<close> (line 252): no create-VM call is issued, but no
  error response is returned either, and the deferred function sees no error, so an
  endpoint attached before stays attached: the state is the one left by the attach, with
  the calls to the guest builder, the folder lookup and the host lookup added.
\<close>

theorem create_empty_host_set:
  fixes env :: "'n env" and params :: ContainerCreateParams
  defines "cc \<equiv> pr_CreateConfig params"
  defines "name \<equiv> (case pr_Name params of None \<Rightarrow> randomName env | Some n \<Rightarrow> n)"
  assumes dir: "cc_WorkingDir cc = Some dir" and path: "cc_Path cc = Some path"
    and attach: "addContainerToScope env name (cc_NetworkSettings cc) w = ((neo, so, err0), w1)"
    and cfg: "createSpecconfig env cc (genID env) name
                (recordEndpoint neo (createMetadata (genID env) name (createCmd cc dir path))) =
              Inr cfg"
    and guest: "NewLinuxGuest env cfg = Inr linux"
    and folders: "Folders env = Inr parent"
    and hosts: "AttachedClusterHosts env = Inr []"
  shows "ContainerCreateHandler env params w =
           (Panics IntnInvalidArgument,
            w1\<lparr>calls := calls w1 @ [CallNewLinuxGuest cfg, CallFolders, CallAttachedClusterHosts]\<rparr>)"
  using dir path attach cfg guest folders hosts
  by (simp add: ContainerCreateHandler_def Let_def cc_def name_def buildAndCreate_def
        placeAndCreate_def deferredRelease_def issue_def)

theorem create_empty_host_set_witness:
  "fst (ContainerCreateHandler (demoEnv\<lparr>AttachedClusterHosts := Inr []\<rparr>) demoParams demoWorld) =
     Panics IntnInvalidArgument \<and>
   net (snd (ContainerCreateHandler (demoEnv\<lparr>AttachedClusterHosts := Inr []\<rparr>) demoParams demoWorld)) =
     [(''custom'', ''web'')] \<and>
   map callName (calls (snd (ContainerCreateHandler (demoEnv\<lparr>AttachedClusterHosts := Inr []\<rparr>)
     demoParams demoWorld))) =
     [''AddContainer'', ''NewLinuxGuest'', ''Folders'', ''AttachedClusterHosts'']"
proof -
  let ?A = "demoEnv\<lparr>AttachedClusterHosts := Inr []\<rparr>"
  let ?cc = "pr_CreateConfig demoParams"
  let ?ne = "endpointMetadata (demoEndpoint customScope None)"
  let ?w1 = "\<lparr>net = [(''custom'', ''web'')], calls = [CallAddContainer customScope ''web'' None]\<rparr>"
  have dir: "cc_WorkingDir ?cc = Some ''/''" and path: "cc_Path ?cc = Some ''/bin/sh''"
    and img: "cc_Image ?cc = Some ''img1''"
    by (simp_all add: demoParams_def demoConfig_def)
  have nameA: "(case pr_Name demoParams of None \<Rightarrow> randomName ?A | Some n \<Rightarrow> n) = ''web''"
    by (simp add: demoParams_def)
  have attachA: "addContainerToScope ?A ''web'' (cc_NetworkSettings ?cc) demoWorld =
      ((Some ?ne, Some customScope, None), ?w1)"
    by (simp add: addContainerToScope_def allocateIn_def requestedIP_def issue_def
          demoEnv_def demoParams_def demoConfig_def demoWorld_def customScope_def)
  have hy: "CHR ''-'' \<in> set (ss_NetworkRefValue (execSession ?A))"
    by (simp add: demoEnv_def)
  obtain cfgA where cfgA: "createSpecconfig ?A ?cc (genID ?A) ''web''
      (recordEndpoint (Some ?ne) (createMetadata (genID ?A) ''web'' (createCmd ?cc ''/'' ''/bin/sh''))) =
      Inr cfgA"
    using createSpecconfig_total [OF img hy] by blast
  have guest: "NewLinuxGuest ?A cfgA = Inr (vc_ID cfgA)"
    and folders: "Folders ?A = Inr ''vmfolder''"
    and hosts: "AttachedClusterHosts ?A = Inr []"
    by (simp_all add: demoEnv_def)
  have "ContainerCreateHandler ?A demoParams demoWorld =
      (Panics IntnInvalidArgument,
       ?w1\<lparr>calls := calls ?w1 @ [CallNewLinuxGuest cfgA, CallFolders, CallAttachedClusterHosts]\<rparr>)"
    using create_empty_host_set [where env = ?A and params = demoParams and w = demoWorld,
        unfolded nameA, OF dir path attachA cfgA guest folders hosts] .
  then show ?thesis by simp
qed

text \<open>
  Error returns after the attach. For a create request whose attach returned an endpoint
  and the scope \<open>s\<close>, and whose configuration was assembled: when the guest builder,
  the folder lookup, the host lookup or the create-VM task returns an error, the handler
  returns the not-found response carrying that error, and the last call it issues is
  \<^verbatim>\<open>RemoveContainer\<close> on \<open>s\<close> for the container's name. The response is the same
  whatever \<^verbatim>\<open>RemoveContainer\<close> returns (\<open>r\<close> below is arbitrary): its result is
  discarded.
\<close>

lemma create_error_return_releases_endpoint:
  fixes env :: "'n env" and params :: ContainerCreateParams
  defines "cc \<equiv> pr_CreateConfig params"
  defines "name \<equiv> (case pr_Name params of None \<Rightarrow> randomName env | Some n \<Rightarrow> n)"
  defines "pool \<equiv> ss_Pool (execSession env)"
  assumes dir: "cc_WorkingDir cc = Some dir" and path: "cc_Path cc = Some path"
    and attach: "addContainerToScope env name (cc_NetworkSettings cc) w = ((Some ne, Some s, None), w1)"
    and cfg: "createSpecconfig env cc (genID env) name
                (recordEndpoint (Some ne) (createMetadata (genID env) name (createCmd cc dir path))) =
              Inr cfg"
    and rel: "RemoveContainer env s name (net w1) = (r, n')"
  shows
    "(NewLinuxGuest env cfg = Inl e \<longrightarrow>
        ContainerCreateHandler env params w =
          (Returns (ContainerCreateNotFound
             (''Error constructing container vm specification: '' @ e)),
           \<lparr>net = n', calls = calls w1 @ [CallNewLinuxGuest cfg, CallRemoveContainer s name]\<rparr>)) \<and>
     (NewLinuxGuest env cfg = Inr linux \<and> Folders env = Inl e \<longrightarrow>
        ContainerCreateHandler env params w =
          (Returns (ContainerCreateNotFound e),
           \<lparr>net = n',
            calls = calls w1 @ [CallNewLinuxGuest cfg, CallFolders, CallRemoveContainer s name]\<rparr>)) \<and>
     (NewLinuxGuest env cfg = Inr linux \<and> Folders env = Inr parent \<and>
      AttachedClusterHosts env = Inl e \<longrightarrow>
        ContainerCreateHandler env params w =
          (Returns (ContainerCreateNotFound e),
           \<lparr>net = n',
            calls = calls w1 @ [CallNewLinuxGuest cfg, CallFolders, CallAttachedClusterHosts,
                               CallRemoveContainer s name]\<rparr>)) \<and>
     (NewLinuxGuest env cfg = Inr linux \<and> Folders env = Inr parent \<and>
      AttachedClusterHosts env = Inr hosts \<and> Intn env (length hosts) < length hosts \<and>
      CreateVM env parent linux pool (hosts ! Intn env (length hosts)) = Some e \<longrightarrow>
        ContainerCreateHandler env params w =
          (Returns (ContainerCreateNotFound e),
           \<lparr>net = n',
            calls = calls w1 @ [CallNewLinuxGuest cfg, CallFolders, CallAttachedClusterHosts,
                               CallCreateVM parent linux pool (hosts ! Intn env (length hosts)),
                               CallRemoveContainer s name]\<rparr>))"
proof -
  have h: "ContainerCreateHandler env params w =
      (case buildAndCreate env cc (genID env) name
              (recordEndpoint (Some ne) (createMetadata (genID env) name (createCmd cc dir path)))
              None w1 of
         (out, err', w2) \<Rightarrow> (out, deferredRelease env name (Some s) err' w2))"
    using dir path attach
    by (simp add: ContainerCreateHandler_def Let_def cc_def name_def)
  have b: "buildAndCreate env cc (genID env) name
              (recordEndpoint (Some ne) (createMetadata (genID env) name (createCmd cc dir path)))
              None w1 =
      (case NewLinuxGuest env cfg of
         Inl e \<Rightarrow> (Returns (ContainerCreateNotFound
                     (''Error constructing container vm specification: '' @ e)),
                   Some e, issue (CallNewLinuxGuest cfg) w1)
       | Inr linux \<Rightarrow> placeAndCreate env (genID env) linux (issue (CallNewLinuxGuest cfg) w1))"
    using cfg by (simp add: buildAndCreate_def Let_def)
  have d: "deferredRelease env name (Some s) (Some e) (w1\<lparr>calls := cs\<rparr>) =
      \<lparr>net = n', calls = cs @ [CallRemoveContainer s name]\<rparr>" for e cs
    using rel by (simp add: deferredRelease_def issue_def)
  have 1: "NewLinuxGuest env cfg = Inl e \<longrightarrow>
        ContainerCreateHandler env params w =
          (Returns (ContainerCreateNotFound
             (''Error constructing container vm specification: '' @ e)),
           \<lparr>net = n', calls = calls w1 @ [CallNewLinuxGuest cfg, CallRemoveContainer s name]\<rparr>)"
    by (simp add: h b issue_def d)
  have 2: "NewLinuxGuest env cfg = Inr linux \<and> Folders env = Inl e \<longrightarrow>
        ContainerCreateHandler env params w =
          (Returns (ContainerCreateNotFound e),
           \<lparr>net = n',
            calls = calls w1 @ [CallNewLinuxGuest cfg, CallFolders, CallRemoveContainer s name]\<rparr>)"
    by (simp add: h b placeAndCreate_def issue_def d)
  have 3: "NewLinuxGuest env cfg = Inr linux \<and> Folders env = Inr parent \<and>
      AttachedClusterHosts env = Inl e \<longrightarrow>
        ContainerCreateHandler env params w =
          (Returns (ContainerCreateNotFound e),
           \<lparr>net = n',
            calls = calls w1 @ [CallNewLinuxGuest cfg, CallFolders, CallAttachedClusterHosts,
                               CallRemoveContainer s name]\<rparr>)"
    by (simp add: h b placeAndCreate_def issue_def d Let_def)
  have 4: "NewLinuxGuest env cfg = Inr linux \<and> Folders env = Inr parent \<and>
      AttachedClusterHosts env = Inr hosts \<and> Intn env (length hosts) < length hosts \<and>
      CreateVM env parent linux pool (hosts ! Intn env (length hosts)) = Some e \<longrightarrow>
        ContainerCreateHandler env params w =
          (Returns (ContainerCreateNotFound e),
           \<lparr>net = n',
            calls = calls w1 @ [CallNewLinuxGuest cfg, CallFolders, CallAttachedClusterHosts,
                               CallCreateVM parent linux pool (hosts ! Intn env (length hosts)),
                               CallRemoveContainer s name]\<rparr>)"
    by (auto simp: h b placeAndCreate_def issue_def d Let_def pool_def)
  show ?thesis using 1 2 3 4 by blast
qed

lemma create_error_return_releases_endpoint_demo:
  "fst (ContainerCreateHandler
          (demoEnv\<lparr>CreateVM := (\<lambda>f g p h. Some ''task failed''),
                   RemoveContainer := (\<lambda>s nm n. (Some ''release failed'', n))\<rparr>)
          demoParams demoWorld) = Returns (ContainerCreateNotFound ''task failed'') \<and>
   map callName (calls (snd (ContainerCreateHandler
          (demoEnv\<lparr>CreateVM := (\<lambda>f g p h. Some ''task failed''),
                   RemoveContainer := (\<lambda>s nm n. (Some ''release failed'', n))\<rparr>)
          demoParams demoWorld))) =
     [''AddContainer'', ''NewLinuxGuest'', ''Folders'', ''AttachedClusterHosts'', ''CreateVM'',
      ''RemoveContainer''] \<and>
   fst (ContainerCreateHandler
          (demoEnv\<lparr>NewLinuxGuest := (\<lambda>c. Inl ''no boot media''),
                   RemoveContainer := (\<lambda>s nm n. (Some ''release failed'', n))\<rparr>)
          demoParams demoWorld) =
     Returns (ContainerCreateNotFound
       ''Error constructing container vm specification: no boot media'') \<and>
   map callName (calls (snd (ContainerCreateHandler
          (demoEnv\<lparr>NewLinuxGuest := (\<lambda>c. Inl ''no boot media''),
                   RemoveContainer := (\<lambda>s nm n. (Some ''release failed'', n))\<rparr>)
          demoParams demoWorld))) =
     [''AddContainer'', ''NewLinuxGuest'', ''RemoveContainer'']"
proof -
  let ?A = "demoEnv\<lparr>CreateVM := (\<lambda>f g p h. Some ''task failed''),
                   RemoveContainer := (\<lambda>s nm n. (Some ''release failed'', n))\<rparr>"
  let ?B = "demoEnv\<lparr>NewLinuxGuest := (\<lambda>c. Inl ''no boot media''),
                   RemoveContainer := (\<lambda>s nm n. (Some ''release failed'', n))\<rparr>"
  let ?cc = "pr_CreateConfig demoParams"
  let ?ne = "endpointMetadata (demoEndpoint customScope None)"
  let ?w1 = "\<lparr>net = [(''custom'', ''web'')], calls = [CallAddContainer customScope ''web'' None]\<rparr>"
  have dir: "cc_WorkingDir ?cc = Some ''/''" and path: "cc_Path ?cc = Some ''/bin/sh''"
    and img: "cc_Image ?cc = Some ''img1''"
    by (simp_all add: demoParams_def demoConfig_def)
  have nameA: "(case pr_Name demoParams of None \<Rightarrow> randomName ?A | Some n \<Rightarrow> n) = ''web''"
    and nameB: "(case pr_Name demoParams of None \<Rightarrow> randomName ?B | Some n \<Rightarrow> n) = ''web''"
    by (simp_all add: demoParams_def)
  have attachA: "addContainerToScope ?A ''web'' (cc_NetworkSettings ?cc) demoWorld =
      ((Some ?ne, Some customScope, None), ?w1)"
    and attachB: "addContainerToScope ?B ''web'' (cc_NetworkSettings ?cc) demoWorld =
      ((Some ?ne, Some customScope, None), ?w1)"
    by (simp_all add: addContainerToScope_def allocateIn_def requestedIP_def issue_def
          demoEnv_def demoParams_def demoConfig_def demoWorld_def customScope_def)
  have hy: "CHR ''-'' \<in> set (ss_NetworkRefValue (execSession ?A))"
    "CHR ''-'' \<in> set (ss_NetworkRefValue (execSession ?B))"
    by (simp_all add: demoEnv_def)
  obtain cfgA where cfgA: "createSpecconfig ?A ?cc (genID ?A) ''web''
      (recordEndpoint (Some ?ne) (createMetadata (genID ?A) ''web'' (createCmd ?cc ''/'' ''/bin/sh''))) =
      Inr cfgA"
    using createSpecconfig_total [OF img hy(1)] by blast
  obtain cfgB where cfgB: "createSpecconfig ?B ?cc (genID ?B) ''web''
      (recordEndpoint (Some ?ne) (createMetadata (genID ?B) ''web'' (createCmd ?cc ''/'' ''/bin/sh''))) =
      Inr cfgB"
    using createSpecconfig_total [OF img hy(2)] by blast
  have relA: "RemoveContainer ?A customScope ''web'' (net ?w1) =
      (Some ''release failed'', [(''custom'', ''web'')])"
    and relB: "RemoveContainer ?B customScope ''web'' (net ?w1) =
      (Some ''release failed'', [(''custom'', ''web'')])"
    by simp_all
  note thA = create_error_return_releases_endpoint [where env = ?A and params = demoParams
      and w = demoWorld and dir = "''/''" and path = "''/bin/sh''" and ne = ?ne
      and s = customScope and ?w1.0 = ?w1 and cfg = cfgA and r = "Some ''release failed''"
      and n' = "[(''custom'', ''web'')]" and linux = "vc_ID cfgA" and parent = "''vmfolder''"
      and hosts = "[''host-1'', ''host-2'']" and e = "''task failed''",
      unfolded nameA, OF dir path attachA cfgA relA]
  note thB = create_error_return_releases_endpoint [where env = ?B and params = demoParams
      and w = demoWorld and dir = "''/''" and path = "''/bin/sh''" and ne = ?ne
      and s = customScope and ?w1.0 = ?w1 and cfg = cfgB and r = "Some ''release failed''"
      and n' = "[(''custom'', ''web'')]" and e = "''no boot media''",
      unfolded nameB, OF dir path attachB cfgB relB]
  have A: "ContainerCreateHandler ?A demoParams demoWorld =
      (Returns (ContainerCreateNotFound ''task failed''),
       \<lparr>net = [(''custom'', ''web'')],
        calls = calls ?w1 @ [CallNewLinuxGuest cfgA, CallFolders, CallAttachedClusterHosts,
                  CallCreateVM ''vmfolder'' (vc_ID cfgA) ''pool-1'' ''host-1'',
                  CallRemoveContainer customScope ''web'']\<rparr>)"
    using thA by (simp add: demoEnv_def)
  have B: "ContainerCreateHandler ?B demoParams demoWorld =
      (Returns (ContainerCreateNotFound
         ''Error constructing container vm specification: no boot media''),
       \<lparr>net = [(''custom'', ''web'')],
        calls = calls ?w1 @ [CallNewLinuxGuest cfgB, CallRemoveContainer customScope ''web'']\<rparr>)"
    using thB by simp
  show ?thesis by (simp add: A B)
qed

text \<open>
  C3. The release of the endpoint depends on the variable \<^verbatim>\<open>err\<close> when the handler is
  left (lines 196-203). For a create request whose attach returned an endpoint and the
  scope \<open>s\<close>, a build or placement failure that is a run-time panic leaves
  \<^verbatim>\<open>err\<close> unset: with a missing image (line 220), with a network reference
  without a hyphen (line 225) and with an empty host set (line 252) the handler panics,
  no error response is returned, and in every panic after the attach
  \<^verbatim>\<open>RemoveContainer\<close> is not called and the network state is the one the attach
  left, so the endpoint stays allocated.
\<close>

theorem create_panic_keeps_endpoint:
  fixes env :: "'n env" and params :: ContainerCreateParams
  defines "cc \<equiv> pr_CreateConfig params"
  defines "name \<equiv> (case pr_Name params of None \<Rightarrow> randomName env | Some n \<Rightarrow> n)"
  assumes dir: "cc_WorkingDir cc = Some dir" and path: "cc_Path cc = Some path"
    and attach: "addContainerToScope env name (cc_NetworkSettings cc) w = ((Some ne, Some s, None), w1)"
  shows
    "(cc_Image cc = None \<longrightarrow>
        ContainerCreateHandler env params w = (Panics NilDereference, w1)) \<and>
     (cc_Image cc \<noteq> None \<and> CHR ''-'' \<notin> set (ss_NetworkRefValue (execSession env)) \<longrightarrow>
        ContainerCreateHandler env params w = (Panics IndexOutOfRange, w1)) \<and>
     (\<forall>cfg linux parent.
        createSpecconfig env cc (genID env) name
          (recordEndpoint (Some ne) (createMetadata (genID env) name (createCmd cc dir path))) =
          Inr cfg \<and>
        NewLinuxGuest env cfg = Inr linux \<and> Folders env = Inr parent \<and>
        AttachedClusterHosts env = Inr [] \<longrightarrow>
        ContainerCreateHandler env params w =
          (Panics IntnInvalidArgument,
           w1\<lparr>calls := calls w1 @ [CallNewLinuxGuest cfg, CallFolders, CallAttachedClusterHosts]\<rparr>)) \<and>
     (\<forall>out w'. ContainerCreateHandler env params w = (Panics out, w') \<longrightarrow>
        net w' = net w1 \<and>
        (\<forall>c \<in> set (drop (length (calls w1)) (calls w')). callName c \<noteq> ''RemoveContainer''))"
proof -
  let ?m = "recordEndpoint (Some ne) (createMetadata (genID env) name (createCmd cc dir path))"
  have h: "ContainerCreateHandler env params w =
      (case buildAndCreate env cc (genID env) name ?m None w1 of
         (out, err', w2) \<Rightarrow> (out, deferredRelease env name (Some s) err' w2))"
    using dir path attach
    by (simp add: ContainerCreateHandler_def Let_def cc_def name_def)
  have 1: "cc_Image cc = None \<longrightarrow>
        ContainerCreateHandler env params w = (Panics NilDereference, w1)"
    by (simp add: h buildAndCreate_def createSpecconfig_def deferredRelease_def)
  have nn: "CHR ''-'' \<notin> set (ss_NetworkRefValue (execSession env)) \<Longrightarrow>
      networkName (ss_NetworkRefValue (execSession env)) = Inl IndexOutOfRange"
    using splitHyphen_no_hyphen [of "ss_NetworkRefValue (execSession env)"]
    by (simp add: networkName_def)
  have 2: "cc_Image cc \<noteq> None \<and> CHR ''-'' \<notin> set (ss_NetworkRefValue (execSession env)) \<longrightarrow>
        ContainerCreateHandler env params w = (Panics IndexOutOfRange, w1)"
    using nn by (auto simp: h buildAndCreate_def createSpecconfig_def deferredRelease_def)
  have 3: "\<forall>cfg linux parent.
        createSpecconfig env cc (genID env) name ?m = Inr cfg \<and>
        NewLinuxGuest env cfg = Inr linux \<and> Folders env = Inr parent \<and>
        AttachedClusterHosts env = Inr [] \<longrightarrow>
        ContainerCreateHandler env params w =
          (Panics IntnInvalidArgument,
           w1\<lparr>calls := calls w1 @ [CallNewLinuxGuest cfg, CallFolders, CallAttachedClusterHosts]\<rparr>)"
    by (simp add: h buildAndCreate_def placeAndCreate_def deferredRelease_def issue_def Let_def)
  have p: "placeAndCreate env cid linux v = (Panics out, e', w2) \<Longrightarrow>
      e' = None \<and> net w2 = net v \<and>
      (\<exists>cs. calls w2 = calls v @ cs \<and> (\<forall>c \<in> set cs. callName c \<noteq> ''RemoveContainer''))"
    for cid linux v out e' w2
    by (auto simp: placeAndCreate_def issue_def Let_def split: sum.splits option.splits if_splits)
  have b: "buildAndCreate env cc (genID env) name ?m None w1 = (Panics out, e', w2) \<Longrightarrow>
      e' = None \<and> net w2 = net w1 \<and>
      (\<exists>cs. calls w2 = calls w1 @ cs \<and> (\<forall>c \<in> set cs. callName c \<noteq> ''RemoveContainer''))"
    for out e' w2
  proof (cases "createSpecconfig env cc (genID env) name ?m")
    case (Inl q)
    assume "buildAndCreate env cc (genID env) name ?m None w1 = (Panics out, e', w2)"
    then show ?thesis using Inl by (auto simp: buildAndCreate_def)
  next
    case (Inr cfg)
    assume a: "buildAndCreate env cc (genID env) name ?m None w1 = (Panics out, e', w2)"
    show ?thesis
    proof (cases "NewLinuxGuest env cfg")
      case (Inl e)
      then show ?thesis using a Inr by (simp add: buildAndCreate_def)
    next
      case g: (Inr linux)
      have "placeAndCreate env (genID env) linux (issue (CallNewLinuxGuest cfg) w1) = (Panics out, e', w2)"
        using a Inr g by (simp add: buildAndCreate_def)
      from p [OF this] obtain cs where e: "e' = None" and n: "net w2 = net w1"
        and cs: "calls w2 = calls w1 @ CallNewLinuxGuest cfg # cs"
          "\<forall>c \<in> set cs. callName c \<noteq> ''RemoveContainer''"
        by (auto simp: issue_def)
      have "\<forall>c \<in> set (CallNewLinuxGuest cfg # cs). callName c \<noteq> ''RemoveContainer''"
        using cs(2) by simp
      then show ?thesis using e n cs(1) by blast
    qed
  qed
  have 4: "\<forall>out w'. ContainerCreateHandler env params w = (Panics out, w') \<longrightarrow>
        net w' = net w1 \<and>
        (\<forall>c \<in> set (drop (length (calls w1)) (calls w')). callName c \<noteq> ''RemoveContainer'')"
  proof (intro allI impI)
    fix out w'
    assume a: "ContainerCreateHandler env params w = (Panics out, w')"
    obtain o2 e' w2 where B: "buildAndCreate env cc (genID env) name ?m None w1 = (o2, e', w2)"
      by (cases "buildAndCreate env cc (genID env) name ?m None w1") auto
    from a B have o2: "o2 = Panics out" and w': "w' = deferredRelease env name (Some s) e' w2"
      by (simp_all add: h)
    from b [of out e' w2] B o2 obtain cs where "e' = None" and r: "net w2 = net w1"
      "calls w2 = calls w1 @ cs" "\<forall>c \<in> set cs. callName c \<noteq> ''RemoveContainer''"
      by blast
    then have "w' = w2" using w' by (simp add: deferredRelease_def)
    then show "net w' = net w1 \<and>
        (\<forall>c \<in> set (drop (length (calls w1)) (calls w')). callName c \<noteq> ''RemoveContainer'')"
      using r by simp
  qed
  show ?thesis using 1 2 3 4 by blast
qed

theorem create_panic_keeps_endpoint_witness:
  "fst (ContainerCreateHandler (demoEnv\<lparr>AttachedClusterHosts := Inr []\<rparr>) demoParams demoWorld) =
     Panics IntnInvalidArgument \<and>
   net (snd (ContainerCreateHandler (demoEnv\<lparr>AttachedClusterHosts := Inr []\<rparr>) demoParams demoWorld)) =
     [(''custom'', ''web'')] \<and>
   map callName (calls (snd (ContainerCreateHandler (demoEnv\<lparr>AttachedClusterHosts := Inr []\<rparr>)
       demoParams demoWorld))) =
     [''AddContainer'', ''NewLinuxGuest'', ''Folders'', ''AttachedClusterHosts''] \<and>
   ContainerCreateHandler demoEnv
       (demoParams\<lparr>pr_CreateConfig := demoConfig\<lparr>cc_Image := None\<rparr>\<rparr>) demoWorld =
     (Panics NilDereference,
      \<lparr>net = [(''custom'', ''web'')], calls = [CallAddContainer customScope ''web'' None]\<rparr>) \<and>
   ContainerCreateHandler
       (demoEnv\<lparr>execSession := (execSession demoEnv)\<lparr>ss_NetworkRefValue := ''network''\<rparr>\<rparr>)
       demoParams demoWorld =
     (Panics IndexOutOfRange,
      \<lparr>net = [(''custom'', ''web'')], calls = [CallAddContainer customScope ''web'' None]\<rparr>)"
proof -
  let ?H = "demoEnv\<lparr>AttachedClusterHosts := Inr []\<rparr>"
  let ?N = "demoEnv\<lparr>execSession := (execSession demoEnv)\<lparr>ss_NetworkRefValue := ''network''\<rparr>\<rparr>"
  let ?pI = "demoParams\<lparr>pr_CreateConfig := demoConfig\<lparr>cc_Image := None\<rparr>\<rparr>"
  let ?ne = "endpointMetadata (demoEndpoint customScope None)"
  let ?w1 = "\<lparr>net = [(''custom'', ''web'')], calls = [CallAddContainer customScope ''web'' None]\<rparr>"
  let ?m = "recordEndpoint (Some ?ne) (createMetadata ''c0ffee'' ''web'' (createCmd demoConfig ''/'' ''/bin/sh''))"
  have dir: "cc_WorkingDir (pr_CreateConfig demoParams) = Some ''/''"
    and path: "cc_Path (pr_CreateConfig demoParams) = Some ''/bin/sh''"
    and dirI: "cc_WorkingDir (pr_CreateConfig ?pI) = Some ''/''"
    and pathI: "cc_Path (pr_CreateConfig ?pI) = Some ''/bin/sh''"
    by (simp_all add: demoParams_def demoConfig_def)
  have nameH: "(case pr_Name demoParams of None \<Rightarrow> randomName ?H | Some n \<Rightarrow> n) = ''web''"
    and nameN: "(case pr_Name demoParams of None \<Rightarrow> randomName ?N | Some n \<Rightarrow> n) = ''web''"
    and nameI: "(case pr_Name ?pI of None \<Rightarrow> randomName demoEnv | Some n \<Rightarrow> n) = ''web''"
    by (simp_all add: demoParams_def)
  have attachH: "addContainerToScope ?H ''web'' (cc_NetworkSettings (pr_CreateConfig demoParams)) demoWorld =
      ((Some ?ne, Some customScope, None), ?w1)"
    and attachN: "addContainerToScope ?N ''web'' (cc_NetworkSettings (pr_CreateConfig demoParams)) demoWorld =
      ((Some ?ne, Some customScope, None), ?w1)"
    and attachI: "addContainerToScope demoEnv ''web'' (cc_NetworkSettings (pr_CreateConfig ?pI)) demoWorld =
      ((Some ?ne, Some customScope, None), ?w1)"
    by (simp_all add: addContainerToScope_def allocateIn_def requestedIP_def issue_def
          demoEnv_def demoParams_def demoConfig_def demoWorld_def customScope_def)
  note thH = create_panic_keeps_endpoint [where env = ?H and params = demoParams and w = demoWorld,
      unfolded nameH, OF dir path attachH]
  note thN = create_panic_keeps_endpoint [where env = ?N and params = demoParams and w = demoWorld,
      unfolded nameN, OF dir path attachN]
  note thI = create_panic_keeps_endpoint [where env = demoEnv and params = ?pI and w = demoWorld,
      unfolded nameI, OF dirI pathI attachI]
  have cfg: "createSpecconfig ?H (pr_CreateConfig demoParams) (genID ?H) ''web''
      (recordEndpoint (Some ?ne)
         (createMetadata (genID ?H) ''web'' (createCmd (pr_CreateConfig demoParams) ''/'' ''/bin/sh''))) =
      Inr (projr (createSpecconfig demoEnv demoConfig ''c0ffee'' ''web'' ?m))"
    by (simp add: createSpecconfig_def networkName_def demoEnv_def demoParams_def demoConfig_def)
  have guest: "NewLinuxGuest ?H c = Inr (vc_ID c)" for c
    by (simp add: demoEnv_def)
  have rest: "Folders ?H = Inr ''vmfolder''" "AttachedClusterHosts ?H = Inr []"
    by (simp_all add: demoEnv_def)
  have 1: "ContainerCreateHandler ?H demoParams demoWorld =
     (Panics IntnInvalidArgument,
      ?w1\<lparr>calls := calls ?w1 @ [CallNewLinuxGuest (projr (createSpecconfig demoEnv demoConfig ''c0ffee'' ''web'' ?m)),
                CallFolders, CallAttachedClusterHosts]\<rparr>)"
    using thH cfg guest rest by blast
  have 2: "ContainerCreateHandler demoEnv ?pI demoWorld = (Panics NilDereference, ?w1)"
    using thI by simp
  have 3: "ContainerCreateHandler ?N demoParams demoWorld = (Panics IndexOutOfRange, ?w1)"
    using thN by (simp add: demoParams_def demoConfig_def demoEnv_def)
  show ?thesis using 1 2 3 by simp
qed

section \<open>The claims about ContainerStartHandler\<close>

text \<open>
  C8. When the lookup of the virtual machine by container ID fails, or the lookup
  succeeds and the power-on fails, the start handler returns the error; the network
  state is unchanged, and the only calls issued are the lookup and (in the second case)
  the power-on: no container is removed from a scope and nothing else is changed.
\<close>

theorem start_failure_no_rollback:
  "(FindVM env cid = Inl e \<longrightarrow>
      ContainerStartHandler env cid w =
        (Returns (ContainerCreateNotFound e), w\<lparr>calls := calls w @ [CallFindVM cid]\<rparr>)) \<and>
   (FindVM env cid = Inr vm \<and> PowerOn env vm = Some e \<longrightarrow>
      ContainerStartHandler env cid w =
        (Returns (ContainerCreateNotFound e),
         w\<lparr>calls := calls w @ [CallFindVM cid, CallPowerOn vm]\<rparr>)) \<and>
   (FindVM env cid = Inl e \<or> (FindVM env cid = Inr vm \<and> PowerOn env vm = Some e) \<longrightarrow>
      net (snd (ContainerStartHandler env cid w)) = net w \<and>
      (\<forall>c \<in> set (drop (length (calls w)) (calls (snd (ContainerStartHandler env cid w)))).
          callName c = ''FindVM'' \<or> callName c = ''PowerOn''))"
  by (auto simp: ContainerStartHandler_def issue_def Let_def)

theorem start_failure_no_rollback_witness:
  "ContainerStartHandler demoEnv ''deadbeef'' demoWorld =
     (Returns (ContainerCreateNotFound ''not found''), \<lparr>net = [], calls = [CallFindVM ''deadbeef'']\<rparr>) \<and>
   ContainerStartHandler (demoEnv\<lparr>PowerOn := (\<lambda>v. Some ''power on failed'')\<rparr>) ''c0ffee''
       \<lparr>net = [(''custom'', ''web'')], calls = []\<rparr> =
     (Returns (ContainerCreateNotFound ''power on failed''),
      \<lparr>net = [(''custom'', ''web'')], calls = [CallFindVM ''c0ffee'', CallPowerOn ''vm-7'']\<rparr>)"
  using start_failure_no_rollback [where env = demoEnv and cid = "''deadbeef''"
       and e = "''not found''" and w = demoWorld]
    start_failure_no_rollback [where env = "demoEnv\<lparr>PowerOn := (\<lambda>v. Some ''power on failed'')\<rparr>"
       and cid = "''c0ffee''" and e = "''power on failed''" and vm = "''vm-7''"
       and w = "\<lparr>net = [(''custom'', ''web'')], calls = []\<rparr>"]
  by (simp add: demoEnv_def demoWorld_def)

end
